theory Spec2Isabelle
  imports Main "HOL-Library.Product_Lexorder" "HOL-Library.List_Lexorder"
begin

section \<open>Three-valued Logical (class Logical of dbf.py)\<close>

text \<open>
  The class has exactly three instances, \<open>Logical.true\<close>, \<open>Logical.false\<close> and
  \<open>Logical.unknown\<close>, whose \<open>value\<close> attributes are \<open>True\<close>, \<open>False\<close> and \<open>None\<close>.
\<close>

datatype Logical = Logical_true | Logical_false | Logical_unknown

text \<open>The \<open>value\<close> attribute: \<open>Some b\<close> is the Python bool \<open>b\<close>, \<open>None\<close> is Python's None.\<close>

fun Logical_value :: "Logical \<Rightarrow> bool option" where
  "Logical_value Logical_true = Some True"
| "Logical_value Logical_false = Some False"
| "Logical_value Logical_unknown = None"

text \<open>
  The second operand of a binary operator: another Logical, a Python bool, None, or an
  object of any other class (for which the operators give \<open>NotImplemented\<close>).
\<close>

datatype operand = OLogical Logical | OBool bool | ONone | OOther

text \<open>What an operator method hands back.\<close>

datatype logical_result =
    NotImplemented
  | Returns Logical
  | ReturnsNone
  | RaisesIndexError

text \<open>\<open>Logical.__new__(cls, value)\<close> applied to the outcome of a Python comparison (a bool).\<close>

definition Logical_new :: "bool \<Rightarrow> Logical" where
  "Logical_new b = (if b then Logical_true else Logical_false)"

text \<open>\<open>__nonzero__\<close>: \<open>x.value == True\<close>.\<close>

definition Logical_nonzero :: "Logical \<Rightarrow> bool" where
  "Logical_nonzero x = (Logical_value x = Some True)"

text \<open>
  The truth value of the Python expression \<open>y == c\<close> where \<open>c\<close> is None, True or False
  (given as \<open>None\<close>, \<open>Some True\<close>, \<open>Some False\<close>).  For a Logical \<open>y\<close> this is
  \<open>Logical.__eq__\<close>, which builds \<open>Logical(y.value == c)\<close>, whose truth value is then
  taken by \<open>__nonzero__\<close>; for a bool or None it is the builtin comparison.
\<close>

fun operand_eq :: "operand \<Rightarrow> bool option \<Rightarrow> bool" where
  "operand_eq (OLogical y) c = Logical_nonzero (Logical_new (Logical_value y = c))"
| "operand_eq (OBool b) c = (Some b = c)"
| "operand_eq ONone c = (c = None)"
| "operand_eq OOther c = False"

text \<open>\<open>isinstance(y, (x.__class__, bool, type(None)))\<close>\<close>

fun is_logical_operand :: "operand \<Rightarrow> bool" where
  "is_logical_operand OOther = False"
| "is_logical_operand _ = True"

text \<open>
  \<open>(a, b)[x]\<close>: the tuple is indexed through \<open>__index__\<close>, which gives 0 for false, 1 for
  true and 2 for unknown (out of range for a pair).
\<close>

fun pair_index :: "Logical \<times> Logical \<Rightarrow> Logical \<Rightarrow> logical_result" where
  "pair_index (a, b) Logical_false = Returns a"
| "pair_index (a, b) Logical_true = Returns b"
| "pair_index (a, b) Logical_unknown = RaisesIndexError"

text \<open>\<open>Logical.A\<close> (bound to \<open>__or__\<close>, \<open>__ror__\<close>, \<open>__add__\<close>, \<open>__radd__\<close>).\<close>

definition A :: "Logical \<Rightarrow> operand \<Rightarrow> logical_result" where
  "A x y =
    (if \<not> is_logical_operand y then NotImplemented
     else if Logical_value x = None \<or> operand_eq y None then Returns Logical_unknown
     else if Logical_value x = Some True \<or> operand_eq y (Some True) then Returns Logical_true
     else Returns Logical_false)"

text \<open>\<open>Logical.K\<close> (bound to \<open>__and__\<close>, \<open>__rand__\<close>, \<open>__mul__\<close>, \<open>__rmul__\<close>).\<close>

definition K :: "Logical \<Rightarrow> operand \<Rightarrow> logical_result" where
  "K x y =
    (if \<not> is_logical_operand y then NotImplemented
     else if Logical_value x = None \<or> operand_eq y None then Returns Logical_unknown
     else if operand_eq y (Some True) then pair_index (Logical_false, Logical_true) x
     else if operand_eq y (Some False) then Returns Logical_false
     else ReturnsNone)"


section \<open>Null-capable Date, DateTime and Time\<close>

text \<open>
  The wrapped \<open>datetime.date\<close>, \<open>datetime.datetime\<close> and \<open>datetime.time\<close> values are
  modelled by their components (naive values, compared lexicographically as the library
  does): (year, month, day), (year, month, day, hour, minute, second, microsecond) and
  (hour, minute, second, microsecond).  The slot \<open>_date\<close> / \<open>_datetime\<close> / \<open>_time\<close> holds
  either such a value or \<open>False\<close>, modelled as \<open>None\<close>.
\<close>

type_synonym date = "int \<times> int \<times> int"
type_synonym datetime = "int \<times> int \<times> int \<times> int \<times> int \<times> int \<times> int"
type_synonym time = "int \<times> int \<times> int \<times> int"

text \<open>The right operand of a comparison, by its exact type (the code tests \<open>type(other) ==\<close>).\<close>

datatype pyobj =
    PyDate date
  | PyDateTime datetime
  | PyTime time
  | DateObj "date option"
  | DateTimeObj "datetime option"
  | TimeObj "time option"
  | PyOther

datatype cmp_result = CmpNotImplemented | Ret bool | RaisesAttributeError

text \<open>
  \<open>__nonzero__\<close>.  Date tests \<open>if yo._date\<close> (a \<open>datetime.date\<close> is always true, \<open>False\<close>
  is not); DateTime and Time test \<open>is not False\<close>.
\<close>

definition Date_nonzero :: "date option \<Rightarrow> bool" where
  "Date_nonzero d = (case d of Some _ \<Rightarrow> True | None \<Rightarrow> False)"

definition DateTime_nonzero :: "datetime option \<Rightarrow> bool" where
  "DateTime_nonzero d = (d \<noteq> None)"

definition Time_nonzero :: "time option \<Rightarrow> bool" where
  "Time_nonzero d = (d \<noteq> None)"

subsection \<open>Date\<close>

fun Date_eq :: "date option \<Rightarrow> pyobj \<Rightarrow> cmp_result" where
  "Date_eq yo other =
    (if Date_nonzero yo then
       (case other of
          PyDate o' \<Rightarrow> Ret (the yo = o')
        | DateObj o' \<Rightarrow> (if Date_nonzero o' then Ret (the yo = the o') else Ret False)
        | _ \<Rightarrow> CmpNotImplemented)
     else
       (case other of
          PyDate o' \<Rightarrow> Ret False
        | DateObj o' \<Rightarrow> (if Date_nonzero o' then Ret False else Ret True)
        | _ \<Rightarrow> CmpNotImplemented))"

fun Date_ge :: "date option \<Rightarrow> pyobj \<Rightarrow> cmp_result" where
  "Date_ge yo other =
    (if Date_nonzero yo then
       (case other of
          PyDate o' \<Rightarrow> Ret (the yo \<ge> o')
        | DateObj o' \<Rightarrow> (if Date_nonzero o' then Ret (the yo \<ge> the o') else Ret False)
        | _ \<Rightarrow> CmpNotImplemented)
     else
       (case other of
          PyDate o' \<Rightarrow> Ret False
        | DateObj o' \<Rightarrow> (if Date_nonzero o' then Ret False else Ret True)
        | _ \<Rightarrow> CmpNotImplemented))"

fun Date_gt :: "date option \<Rightarrow> pyobj \<Rightarrow> cmp_result" where
  "Date_gt yo other =
    (if Date_nonzero yo then
       (case other of
          PyDate o' \<Rightarrow> Ret (the yo > o')
        | DateObj o' \<Rightarrow> (if Date_nonzero o' then Ret (the yo > the o') else Ret True)
        | _ \<Rightarrow> CmpNotImplemented)
     else
       (case other of
          PyDate o' \<Rightarrow> Ret False
        | DateObj o' \<Rightarrow> (if Date_nonzero o' then Ret False else Ret False)
        | _ \<Rightarrow> CmpNotImplemented))"

fun Date_le :: "date option \<Rightarrow> pyobj \<Rightarrow> cmp_result" where
  "Date_le yo other =
    (if Date_nonzero yo then
       (case other of
          PyDate o' \<Rightarrow> Ret (the yo \<le> o')
        | DateObj o' \<Rightarrow> (if Date_nonzero o' then Ret (the yo \<le> the o') else Ret False)
        | _ \<Rightarrow> CmpNotImplemented)
     else
       (case other of
          PyDate o' \<Rightarrow> Ret True
        | DateObj o' \<Rightarrow> (if Date_nonzero o' then Ret True else Ret True)
        | _ \<Rightarrow> CmpNotImplemented))"

fun Date_lt :: "date option \<Rightarrow> pyobj \<Rightarrow> cmp_result" where
  "Date_lt yo other =
    (if Date_nonzero yo then
       (case other of
          PyDate o' \<Rightarrow> Ret (the yo < o')
        | DateObj o' \<Rightarrow> (if Date_nonzero o' then Ret (the yo < the o') else Ret False)
        | _ \<Rightarrow> CmpNotImplemented)
     else
       (case other of
          PyDate o' \<Rightarrow> Ret True
        | DateObj o' \<Rightarrow> (if Date_nonzero o' then Ret True else Ret False)
        | _ \<Rightarrow> CmpNotImplemented))"

subsection \<open>DateTime\<close>

fun DateTime_eq :: "datetime option \<Rightarrow> pyobj \<Rightarrow> cmp_result" where
  "DateTime_eq yo other =
    (if DateTime_nonzero yo then
       (case other of
          PyDateTime o' \<Rightarrow> Ret (the yo = o')
        | DateTimeObj o' \<Rightarrow> (if DateTime_nonzero o' then Ret (the yo = the o') else Ret False)
        | _ \<Rightarrow> CmpNotImplemented)
     else
       (case other of
          PyDateTime o' \<Rightarrow> Ret False
        | DateTimeObj o' \<Rightarrow> (if DateTime_nonzero o' then Ret False else Ret True)
        | _ \<Rightarrow> CmpNotImplemented))"

fun DateTime_ge :: "datetime option \<Rightarrow> pyobj \<Rightarrow> cmp_result" where
  "DateTime_ge yo other =
    (if DateTime_nonzero yo then
       (case other of
          PyDateTime o' \<Rightarrow> Ret (the yo \<ge> o')
        | DateTimeObj o' \<Rightarrow> (if DateTime_nonzero o' then Ret (the yo \<ge> the o') else Ret False)
        | _ \<Rightarrow> CmpNotImplemented)
     else
       (case other of
          PyDateTime o' \<Rightarrow> Ret False
        | DateTimeObj o' \<Rightarrow> (if DateTime_nonzero o' then Ret False else Ret True)
        | _ \<Rightarrow> CmpNotImplemented))"

fun DateTime_gt :: "datetime option \<Rightarrow> pyobj \<Rightarrow> cmp_result" where
  "DateTime_gt yo other =
    (if DateTime_nonzero yo then
       (case other of
          PyDateTime o' \<Rightarrow> Ret (the yo > o')
        | DateTimeObj o' \<Rightarrow> (if DateTime_nonzero o' then Ret (the yo > the o') else Ret True)
        | _ \<Rightarrow> CmpNotImplemented)
     else
       (case other of
          PyDateTime o' \<Rightarrow> Ret False
        | DateTimeObj o' \<Rightarrow> (if DateTime_nonzero o' then Ret False else Ret False)
        | _ \<Rightarrow> CmpNotImplemented))"

fun DateTime_le :: "datetime option \<Rightarrow> pyobj \<Rightarrow> cmp_result" where
  "DateTime_le yo other =
    (if DateTime_nonzero yo then
       (case other of
          PyDateTime o' \<Rightarrow> Ret (the yo \<le> o')
        | DateTimeObj o' \<Rightarrow> (if DateTime_nonzero o' then Ret (the yo \<le> the o') else Ret False)
        | _ \<Rightarrow> CmpNotImplemented)
     else
       (case other of
          PyDateTime o' \<Rightarrow> Ret True
        | DateTimeObj o' \<Rightarrow> (if DateTime_nonzero o' then Ret True else Ret True)
        | _ \<Rightarrow> CmpNotImplemented))"

fun DateTime_lt :: "datetime option \<Rightarrow> pyobj \<Rightarrow> cmp_result" where
  "DateTime_lt yo other =
    (if DateTime_nonzero yo then
       (case other of
          PyDateTime o' \<Rightarrow> Ret (the yo < o')
        | DateTimeObj o' \<Rightarrow> (if DateTime_nonzero o' then Ret (the yo < the o') else Ret False)
        | _ \<Rightarrow> CmpNotImplemented)
     else
       (case other of
          PyDateTime o' \<Rightarrow> Ret True
        | DateTimeObj o' \<Rightarrow> (if DateTime_nonzero o' then Ret True else Ret False)
        | _ \<Rightarrow> CmpNotImplemented))"

subsection \<open>Time\<close>

fun Time_eq :: "time option \<Rightarrow> pyobj \<Rightarrow> cmp_result" where
  "Time_eq yo other =
    (if Time_nonzero yo then
       (case other of
          PyTime o' \<Rightarrow> Ret (the yo = o')
        | TimeObj o' \<Rightarrow> (if Time_nonzero o' then Ret (the yo = the o') else Ret False)
        | _ \<Rightarrow> CmpNotImplemented)
     else
       (case other of
          PyTime o' \<Rightarrow> Ret False
        | TimeObj o' \<Rightarrow> (if Time_nonzero o' then Ret False else Ret True)
        | _ \<Rightarrow> CmpNotImplemented))"

fun Time_ge :: "time option \<Rightarrow> pyobj \<Rightarrow> cmp_result" where
  "Time_ge yo other =
    (if Time_nonzero yo then
       (case other of
          PyTime o' \<Rightarrow> Ret (the yo \<ge> o')
        | TimeObj o' \<Rightarrow> (if Time_nonzero o' then Ret (the yo \<ge> the o') else Ret False)
        | _ \<Rightarrow> CmpNotImplemented)
     else
       (case other of
          PyTime o' \<Rightarrow> Ret False
        | TimeObj o' \<Rightarrow> (if Time_nonzero o' then Ret False else Ret True)
        | _ \<Rightarrow> CmpNotImplemented))"

text \<open>
  In \<open>Time.__gt__\<close> the branch for a non-empty receiver tests \<open>type(other) == DateTime\<close>
  and then reads \<open>other._time\<close>, an attribute a DateTime does not have (its
  \<open>__getattr__\<close> forwards to the wrapped \<open>datetime.datetime\<close>, which raises
  AttributeError); a Time operand falls through to \<open>NotImplemented\<close>.
\<close>

fun Time_gt :: "time option \<Rightarrow> pyobj \<Rightarrow> cmp_result" where
  "Time_gt yo other =
    (if Time_nonzero yo then
       (case other of
          PyTime o' \<Rightarrow> Ret (the yo > o')
        | DateTimeObj o' \<Rightarrow> (if DateTime_nonzero o' then RaisesAttributeError else Ret True)
        | _ \<Rightarrow> CmpNotImplemented)
     else
       (case other of
          PyTime o' \<Rightarrow> Ret False
        | TimeObj o' \<Rightarrow> (if Time_nonzero o' then Ret False else Ret False)
        | _ \<Rightarrow> CmpNotImplemented))"

fun Time_le :: "time option \<Rightarrow> pyobj \<Rightarrow> cmp_result" where
  "Time_le yo other =
    (if Time_nonzero yo then
       (case other of
          PyTime o' \<Rightarrow> Ret (the yo \<le> o')
        | TimeObj o' \<Rightarrow> (if Time_nonzero o' then Ret (the yo \<le> the o') else Ret False)
        | _ \<Rightarrow> CmpNotImplemented)
     else
       (case other of
          PyTime o' \<Rightarrow> Ret True
        | TimeObj o' \<Rightarrow> (if Time_nonzero o' then Ret True else Ret True)
        | _ \<Rightarrow> CmpNotImplemented))"

fun Time_lt :: "time option \<Rightarrow> pyobj \<Rightarrow> cmp_result" where
  "Time_lt yo other =
    (if Time_nonzero yo then
       (case other of
          PyTime o' \<Rightarrow> Ret (the yo < o')
        | TimeObj o' \<Rightarrow> (if Time_nonzero o' then Ret (the yo < the o') else Ret False)
        | _ \<Rightarrow> CmpNotImplemented)
     else
       (case other of
          PyTime o' \<Rightarrow> Ret True
        | TimeObj o' \<Rightarrow> (if Time_nonzero o' then Ret True else Ret False)
        | _ \<Rightarrow> CmpNotImplemented))"


section \<open>Exceptions, byte strings and the codec primitives\<close>

text \<open>
  A Python 2 \<open>str\<close> is a byte string, modelled as \<open>string\<close> (a list of 8-bit characters).
  The exceptions that the modelled code can raise; the argument is the message.
\<close>

datatype error =
    DbfError string
  | DataOverflow string
  | FieldMissing string
  | NameError string
  | StructError
  | AttributeError string
  | TypeError string
  | IndexError string
  | ZeroDivisionError
  | ValueError string
  | Bof
  | Eof

text \<open>\<open>"%d" % n\<close>\<close>

definition digit_char :: "nat \<Rightarrow> char" where
  "digit_char n = ''0123456789'' ! n"

function str_of_nat :: "nat \<Rightarrow> string" where
  "str_of_nat n = (if n < 10 then [digit_char n] else str_of_nat (n div 10) @ [digit_char (n mod 10)])"
  by pat_completeness auto
termination
  by (relation "measure id") auto

declare str_of_nat.simps [simp del]

definition str_of_int :: "int \<Rightarrow> string" where
  "str_of_int i = (if i < 0 then CHR ''-'' # str_of_nat (nat (- i)) else str_of_nat (nat i))"

text \<open>\<open>str.upper()\<close> on a byte string (ASCII letters).\<close>

definition upper_char :: "char \<Rightarrow> char" where
  "upper_char c =
    (let n = (of_char c :: nat) in if 97 \<le> n \<and> n \<le> 122 then char_of (n - 32) else c)"

definition upper :: "string \<Rightarrow> string" where
  "upper s = map upper_char s"

text \<open>
  \<open>struct.pack\<close> for the formats used: \<open>H\<close> (unsigned 16 bit), \<open>L\<close> (unsigned 32 bit),
  \<open>i\<close> (signed 32 bit), little-endian unless \<open>bigendian\<close>, and \<open>11s\<close> (11 bytes,
  NUL-padded).  A value outside the format's range raises \<open>struct.error\<close>.
\<close>

definition le_bytes :: "nat \<Rightarrow> int \<Rightarrow> string" where
  "le_bytes n v = map (\<lambda>k. char_of (v div 256 ^ k)) [0..<n]"

definition struct_pack_H :: "bool \<Rightarrow> int \<Rightarrow> error + string" where
  "struct_pack_H bigendian v =
    (if v < 0 \<or> 65535 < v then Inl StructError
     else Inr (if bigendian then rev (le_bytes 2 v) else le_bytes 2 v))"

definition struct_pack_L :: "bool \<Rightarrow> int \<Rightarrow> error + string" where
  "struct_pack_L bigendian v =
    (if v < 0 \<or> 4294967295 < v then Inl StructError
     else Inr (if bigendian then rev (le_bytes 4 v) else le_bytes 4 v))"

definition struct_pack_i :: "int \<Rightarrow> error + string" where
  "struct_pack_i v =
    (if v < - 2147483648 \<or> 2147483647 < v then Inl StructError else Inr (le_bytes 4 v))"

definition struct_pack_11s :: "string \<Rightarrow> string" where
  "struct_pack_11s s = take 11 s @ replicate (11 - length s) (CHR 0x00)"

text \<open>\<open>struct.unpack('<L' / '>L', bytes)[0]\<close>: exactly four bytes, else \<open>struct.error\<close>.\<close>

definition le_value :: "string \<Rightarrow> nat" where
  "le_value bs = foldr (\<lambda>c acc. of_char c + 256 * acc) bs 0"

definition struct_unpack_L :: "bool \<Rightarrow> string \<Rightarrow> error + nat" where
  "struct_unpack_L bigendian bs =
    (if length bs \<noteq> 4 then Inl StructError
     else Inr (le_value (if bigendian then rev bs else bs)))"

text \<open>
  \<open>packShortInt\<close> and \<open>packLongInt\<close>.  The \<open>raise\<close> statement names \<open>DateOverflow\<close>, which
  is defined nowhere in the module (the class is called \<open>DataOverflow\<close>), so evaluating the
  statement raises NameError.
\<close>

definition packShortInt :: "int \<Rightarrow> bool \<Rightarrow> error + string" where
  "packShortInt v bigendian =
    (if v > 65535 then Inl (NameError ''global name 'DateOverflow' is not defined'')
     else if bigendian then struct_pack_H True v
     else struct_pack_H False v)"

definition packLongInt :: "int \<Rightarrow> bool \<Rightarrow> error + string" where
  "packLongInt v bigendian =
    (if v > 4294967295 then Inl (NameError ''global name 'DateOverflow' is not defined'')
     else if bigendian then struct_pack_L True v
     else struct_pack_L False v)"

definition packStr :: "string \<Rightarrow> error + string" where
  "packStr string =
    (if length string > 10 then
       Inl (DbfError (''Maximum string size is ten characters -- '' @ string @ '' has ''
                      @ str_of_nat (length string) @ '' characters''))
     else Inr (struct_pack_11s (upper string)))"

definition unpackLongInt :: "string \<Rightarrow> bool \<Rightarrow> error + nat" where
  "unpackLongInt bytes bigendian =
    (if bigendian then struct_unpack_L True bytes else struct_unpack_L False bytes)"

subsection \<open>updateInteger\<close>

text \<open>
  The values handed to \<open>updateInteger\<close>: an int (or long), None, or an object of a class
  without integer conversion, given by the text of its type and of itself.  \<open>py_int\<close> is
  the builtin \<open>int(value)\<close>; \<open>None\<close> stands for the TypeError it raises.
\<close>

datatype pyvalue = PyInt int | PyNone | PyObject string string

fun py_int :: "pyvalue \<Rightarrow> int option" where
  "py_int (PyInt i) = Some i"
| "py_int PyNone = None"
| "py_int (PyObject ty txt) = None"

fun type_text :: "pyvalue \<Rightarrow> string" where
  "type_text (PyInt i) = ''<type 'int'>''"
| "type_text PyNone = ''<type 'NoneType'>''"
| "type_text (PyObject ty txt) = ty"

fun value_text :: "pyvalue \<Rightarrow> string" where
  "value_text (PyInt i) = str_of_int i"
| "value_text PyNone = ''None''"
| "value_text (PyObject ty txt) = txt"

definition updateInteger :: "pyvalue \<Rightarrow> error + string" where
  "updateInteger v =
    (case py_int v of
       None \<Rightarrow> Inl (DbfError (''incompatible type: '' @ type_text v @ ''('' @ value_text v @ '')''))
     | Some i \<Rightarrow>
        (if \<not> (- 2147483648 < i \<and> i < 2147483647) then
           Inl (DataOverflow (''Integer size exceeded.  Possible: -2,147,483,648..+2,147,483,647.  Attempted: ''
                              @ str_of_int i))
         else struct_pack_i i))"


section \<open>Files\<close>

text \<open>
  A binary file opened for reading and writing: its bytes and the current position.
  Writing past the end fills the gap with NUL bytes; reading at or past the end gives the
  empty string.
\<close>

record pyfile =
  contents :: string
  pos :: nat

definition file_seek :: "nat \<Rightarrow> pyfile \<Rightarrow> pyfile" where
  "file_seek p f = f\<lparr>pos := p\<rparr>"

definition file_write :: "string \<Rightarrow> pyfile \<Rightarrow> pyfile" where
  "file_write d f =
    (let p = pos f;
         c = contents f @ replicate (p - length (contents f)) (CHR 0x00)
     in \<lparr>contents = take p c @ d @ drop (p + length d) c, pos = p + length d\<rparr>)"

definition file_read :: "nat \<Rightarrow> pyfile \<Rightarrow> string \<times> pyfile" where
  "file_read n f =
    (let d = take n (drop (pos f) (contents f)) in (d, f\<lparr>pos := pos f + length d\<rparr>))"

text \<open>\<open>file.truncate(size)\<close> (cut, or fill with NUL bytes) and \<open>file.seek(0, os.SEEK_END)\<close>.\<close>

definition file_truncate :: "nat \<Rightarrow> pyfile \<Rightarrow> pyfile" where
  "file_truncate n f =
    f\<lparr>contents := take n (contents f @ replicate (n - length (contents f)) (CHR 0x00))\<rparr>"

definition file_seek_end :: "pyfile \<Rightarrow> pyfile" where
  "file_seek_end f = f\<lparr>pos := length (contents f)\<rparr>"


section \<open>Records, tables and the record pointer\<close>

text \<open>
  A \<open>_DbfRecord\<close> with its slots \<open>_recnum\<close>, \<open>_data\<close> (the bytes of the record, delete
  flag first) and \<open>_dirty\<close>.
\<close>

record DbfRecord =
  recnum :: int
  rdata :: string
  dirty :: bool

text \<open>
  The state of a \<open>DbfTable\<close> that the modelled methods read and write:
  \<^item> \<open>meta_header\<close>: the byte buffer \<open>_meta.header._data\<close> (32 header bytes, the field
    descriptors, a CR, the extra bytes);
  \<^item> \<open>meta_dfd\<close>: the table file \<open>_meta.dfd\<close>;
  \<^item> \<open>meta_blankrecord\<close>: \<open>_meta.blankrecord\<close>, the bytes of a blank record as
    \<open>_createBlankRecord\<close> builds them from the field layout;
  \<^item> \<open>meta_today\<close>: the three bytes \<open>packDate(Date.today())\<close> that reading \<open>header.data\<close>
    stamps into the buffer;
  \<^item> \<open>table_list\<close>: the records of \<open>_table\<close>, in order (the entries of the weak list of a
    disk table are taken as live record objects);
  \<^item> \<open>meta_inmemory\<close>, \<open>meta_current\<close>: \<open>_meta.inmemory\<close> and the record pointer
    \<open>_meta.current\<close>;
  \<^item> \<open>versionabbv\<close>: the class attribute \<open>_versionabbv\<close> (\<open>db3\<close>, \<open>fp\<close>, \<open>vfp\<close>, ...).
  No index is attached to the table (\<open>_indexen\<close> is empty).
\<close>

record DbfTable =
  meta_header :: string
  meta_dfd :: pyfile
  meta_blankrecord :: string
  meta_today :: string
  table_list :: "DbfRecord list"
  meta_inmemory :: bool
  meta_current :: int
  versionabbv :: string

text \<open>
  The header properties decode fixed slices of the buffer (\<open>unpackLongInt(_data[4:8])\<close>,
  \<open>unpackShortInt(_data[8:10])\<close>, \<open>unpackShortInt(_data[10:12])\<close>).  The buffer always
  holds at least 33 bytes, so each slice has the length its format needs.
\<close>

definition record_count :: "string \<Rightarrow> nat" where
  "record_count h = le_value (take 4 (drop 4 h))"

definition start :: "string \<Rightarrow> nat" where
  "start h = le_value (take 2 (drop 8 h))"

definition record_length :: "string \<Rightarrow> nat" where
  "record_length h = le_value (take 2 (drop 10 h))"

text \<open>The setter of \<open>record_count\<close>: \<open>yo._data[4:8] = array('c', packLongInt(count))\<close>.\<close>

definition set_record_count :: "string \<Rightarrow> int \<Rightarrow> error + string" where
  "set_record_count h n =
    (case packLongInt n False of
       Inl e \<Rightarrow> Inl e
     | Inr bs \<Rightarrow> Inr (take 4 h @ bs @ drop 8 h))"

subsection \<open>current and goto\<close>

text \<open>\<open>DbfTable.current(index=True)\<close>: the record pointer, or Bof / Eof.\<close>

definition current_index :: "DbfTable \<Rightarrow> error + int" where
  "current_index yo =
    (if meta_current yo < 0 then Inl Bof
     else if meta_current yo \<ge> int (record_count (meta_header yo)) then Inl Eof
     else Inr (meta_current yo))"

text \<open>\<open>DbfTable.current()\<close>: the record under the pointer, \<open>yo._table[yo._meta.current]\<close>.\<close>

definition current_record :: "DbfTable \<Rightarrow> error + DbfRecord" where
  "current_record yo =
    (case current_index yo of
       Inl e \<Rightarrow> Inl e
     | Inr i \<Rightarrow>
        (if nat i < length (table_list yo) then Inr (table_list yo ! nat i)
         else Inl (IndexError ''list index out of range'')))"

text \<open>
  A criteria tuple \<open>(value, field)\<close> or \<open>(value, field, func)\<close>; the third component is
  \<open>None\<close> when the tuple has only two.  \<open>_normalize_tuples(tuples, 3, [_nop])\<close> fills a
  missing third component with \<open>_nop\<close>, the identity.
\<close>

type_synonym 'v criterion = "'v \<times> string \<times> ('v \<Rightarrow> 'v) option"

definition nop :: "'v \<Rightarrow> 'v" where
  "nop v = v"

definition normalize_tuples :: "'v criterion list \<Rightarrow> ('v \<times> string \<times> ('v \<Rightarrow> 'v)) list" where
  "normalize_tuples tuples =
    map (\<lambda>(v, field, func). (v, field, (case func of None \<Rightarrow> nop | Some f \<Rightarrow> f))) tuples"

datatype 'v goto_arg = GotoInt int | GotoCriteria "'v criterion list"

text \<open>
  \<open>DbfTable.goto\<close>.  With an integer the pointer is set and the record returned.  With
  criteria, after \<open>specs\<close>, \<open>match\<close> and \<open>current\<close> are computed the loop condition
  \<open>while not yo.Eof():\<close> is evaluated: neither the instance nor the class has an attribute
  \<open>Eof\<close> (the method is \<open>eof\<close>, and \<open>Eof\<close> is a module-level exception class), and
  \<open>__getattr__\<close> ends in \<open>object.__getattribute__(yo, name)\<close>, so AttributeError is raised
  before the loop body is ever entered.
\<close>

definition goto :: "DbfTable \<Rightarrow> 'v goto_arg \<Rightarrow> error + (DbfRecord \<times> DbfTable)" where
  "goto yo criteria =
    (case criteria of
       GotoInt n \<Rightarrow>
        (let count = int (record_count (meta_header yo)) in
         if \<not> (- count \<le> n \<and> n < count) then Inl (IndexError (''Record '' @ str_of_int n @ '' does not exist''))
         else
           (let yo' = yo\<lparr>meta_current := (if n < 0 then n + count else n)\<rparr> in
            case current_record yo' of Inl e \<Rightarrow> Inl e | Inr r \<Rightarrow> Inr (r, yo')))
     | GotoCriteria tuples \<Rightarrow>
        (let criteria' = normalize_tuples tuples;
             specs = map (\<lambda>(v, field, func). (field, func)) criteria';
             match = map (\<lambda>(v, field, func). v) criteria'
         in case current_index yo of
              Inl e \<Rightarrow> Inl e
            | Inr current \<Rightarrow> Inl (AttributeError ''Eof'')))"


section \<open>Ordered index (class Index)\<close>

text \<open>
  What a key function returns for a record: the class \<open>DoNotIndex\<close>, a single value, or a
  tuple of values.  A single value is wrapped into a 1-tuple; tuples compare
  lexicographically.
\<close>

datatype 'a keyval = DoNotIndex | Scalar 'a | Tuple "'a list"

fun as_tuple :: "'a keyval \<Rightarrow> 'a list" where
  "as_tuple (Scalar a) = [a]"
| "as_tuple (Tuple t) = t"
| "as_tuple DoNotIndex = []"

text \<open>
  The index state: \<open>_values\<close>, \<open>_rec_by_val\<close> and the dict \<open>_records\<close> (as an association
  list with one pair per key).
\<close>

record 'a Index =
  Index_values :: "'a list list"
  Index_rec_by_val :: "int list"
  Index_records :: "(int \<times> 'a list) list"

text \<open>\<open>bisect.bisect_right(a, x, lo, hi)\<close> and \<open>bisect.bisect_left(a, x, lo, hi)\<close>.\<close>

function bisect_right :: "'k::linorder list \<Rightarrow> 'k \<Rightarrow> nat \<Rightarrow> nat \<Rightarrow> nat" where
  "bisect_right a x lo hi =
    (if lo < hi then
       (let mid = (lo + hi) div 2 in
        if x < a ! mid then bisect_right a x lo mid else bisect_right a x (mid + 1) hi)
     else lo)"
  by pat_completeness auto
termination
  by (relation "measure (\<lambda>(a, x, lo, hi). hi - lo)") auto

function bisect_left :: "'k::linorder list \<Rightarrow> 'k \<Rightarrow> nat \<Rightarrow> nat \<Rightarrow> nat" where
  "bisect_left a x lo hi =
    (if lo < hi then
       (let mid = (lo + hi) div 2 in
        if a ! mid < x then bisect_left a x (mid + 1) hi else bisect_left a x lo mid)
     else lo)"
  by pat_completeness auto
termination
  by (relation "measure (\<lambda>(a, x, lo, hi). hi - lo)") auto

declare bisect_right.simps [simp del] bisect_left.simps [simp del]

text \<open>\<open>list.insert(i, x)\<close> (for \<open>0 \<le> i \<le> len\<close>) and \<open>list.pop(i)\<close>.\<close>

definition list_insert :: "nat \<Rightarrow> 'x \<Rightarrow> 'x list \<Rightarrow> 'x list" where
  "list_insert i x xs = take i xs @ x # drop i xs"

definition list_pop :: "nat \<Rightarrow> 'x list \<Rightarrow> error + 'x list" where
  "list_pop i xs =
    (if i < length xs then Inr (take i xs @ drop (Suc i) xs)
     else Inl (IndexError (if xs = [] then ''pop from empty list'' else ''pop index out of range'')))"

text \<open>\<open>d[k] = v\<close> on a dict.\<close>

fun dict_set :: "'k \<Rightarrow> 'v \<Rightarrow> ('k \<times> 'v) list \<Rightarrow> ('k \<times> 'v) list" where
  "dict_set k v [] = [(k, v)]"
| "dict_set k v ((k', v') # d) = (if k = k' then (k, v) # d else (k', v') # dict_set k v d)"

text \<open>The insertion shared by \<open>__init__\<close> and \<open>__call__\<close>.\<close>

definition index_insert :: "int \<Rightarrow> 'a::linorder list \<Rightarrow> 'a Index \<Rightarrow> 'a Index" where
  "index_insert rnum v yo =
    (let vindex = bisect_right (Index_values yo) v 0 (length (Index_values yo)) in
     yo\<lparr>Index_values := list_insert vindex v (Index_values yo),
        Index_rec_by_val := list_insert vindex rnum (Index_rec_by_val yo),
        Index_records := dict_set rnum v (Index_records yo)\<rparr>)"

text \<open>\<open>Index.__init__(table, key)\<close>, given the records that iterating the table yields.\<close>

definition Index_init :: "(DbfRecord \<Rightarrow> 'a::linorder keyval) \<Rightarrow> DbfRecord list \<Rightarrow> 'a Index" where
  "Index_init key recs =
    fold (\<lambda>record yo.
            (case key record of
               DoNotIndex \<Rightarrow> yo
             | v \<Rightarrow> index_insert (recnum record) (as_tuple v) yo))
         recs \<lparr>Index_values = [], Index_rec_by_val = [], Index_records = []\<rparr>"

text \<open>\<open>Index.__call__(record)\<close>, run by every record write.\<close>

definition Index_call ::
  "(DbfRecord \<Rightarrow> 'a::linorder keyval) \<Rightarrow> DbfRecord \<Rightarrow> 'a Index \<Rightarrow> error + 'a Index" where
  "Index_call key record yo =
    (let rnum = recnum record;
         removed =
           (case map_of (Index_records yo) rnum of
              None \<Rightarrow> Inr yo
            | Some v \<Rightarrow>
               (let vindex = bisect_left (Index_values yo) v 0 (length (Index_values yo)) in
                case list_pop vindex (Index_values yo) of
                  Inl e \<Rightarrow> Inl e
                | Inr vs \<Rightarrow>
                   (case list_pop vindex (Index_rec_by_val yo) of
                      Inl e \<Rightarrow> Inl e
                    | Inr rs \<Rightarrow> Inr (yo\<lparr>Index_values := vs, Index_rec_by_val := rs\<rparr>))))
     in case removed of
          Inl e \<Rightarrow> Inl e
        | Inr yo' \<Rightarrow>
           (case key record of
              DoNotIndex \<Rightarrow> Inr yo'
            | v \<Rightarrow> Inr (index_insert rnum (as_tuple v) yo')))"

text \<open>\<open>Index._purge(rec_num)\<close>, the sibling removal used for packed records.\<close>

definition Index_purge :: "int \<Rightarrow> 'a::linorder Index \<Rightarrow> error + 'a Index" where
  "Index_purge rnum yo =
    (case map_of (Index_records yo) rnum of
       None \<Rightarrow> Inr yo
     | Some v \<Rightarrow>
        (let vindex = bisect_left (Index_values yo) v 0 (length (Index_values yo));
             recs = filter (\<lambda>(k, _). k \<noteq> rnum) (Index_records yo)
         in case list_pop vindex (Index_values yo) of
              Inl e \<Rightarrow> Inl e
            | Inr vs \<Rightarrow>
               (case list_pop vindex (Index_rec_by_val yo) of
                  Inl e \<Rightarrow> Inl e
                | Inr rs \<Rightarrow>
                   Inr (yo\<lparr>Index_values := vs, Index_rec_by_val := rs, Index_records := recs\<rparr>))))"


text \<open>
  A key function for the examples: a record marked as deleted is kept out of the index,
  any other record is indexed by the bytes after its delete flag.
\<close>

definition active_key :: "DbfRecord \<Rightarrow> int keyval" where
  "active_key r =
    (case rdata r of
       [] \<Rightarrow> DoNotIndex
     | flag # rest \<Rightarrow> if flag = CHR ''*'' then DoNotIndex else Tuple (map of_char rest))"


section \<open>Files and the memo stores\<close>

text \<open>
  \<open>str.find(sub)\<close>: the index of the first occurrence, \<open>None\<close> for Python's -1.
  \<open>str.rstrip()\<close>: without the trailing whitespace bytes (space, TAB, LF, VT, FF, CR).
\<close>

fun str_find :: "string \<Rightarrow> string \<Rightarrow> nat option" where
  "str_find [] sub = (if sub = [] then Some 0 else None)"
| "str_find (c # s) sub =
    (if take (length sub) (c # s) = sub then Some 0 else map_option Suc (str_find s sub))"

definition isspace :: "char \<Rightarrow> bool" where
  "isspace c \<longleftrightarrow> c \<in> set [CHR '' '', CHR 0x09, CHR 0x0A, CHR 0x0B, CHR 0x0C, CHR 0x0D]"

definition rstrip :: "string \<Rightarrow> string" where
  "rstrip s = rev (dropWhile isspace (rev s))"

subsection \<open>dBase III memo file (class \<open>_Db3Memo\<close>)\<close>

text \<open>
  \<open>yo.nextmemo\<close> and the memo file \<open>yo.meta.mfd\<close>; \<open>_init\<close> sets \<open>meta.memo_size\<close> to 512
  and \<open>record_header_length\<close> to 2.
\<close>

record Db3Memo =
  nextmemo :: nat
  mfd :: pyfile

definition db3_memo_size :: nat where
  "db3_memo_size = 512"

definition db3_record_header_length :: nat where
  "db3_record_header_length = 2"

definition eom_mark :: string where
  "eom_mark = [CHR 0x1A, CHR 0x1A]"

text \<open>
  The loop of \<open>_get_memo\<close>: read block after block until the accumulated data holds the
  end mark; at the end of the file the data is returned as it is.
\<close>

function get_memo_loop :: "string \<Rightarrow> pyfile \<Rightarrow> string \<times> pyfile" where
  "get_memo_loop data f =
    (let (newdata, f') = file_read db3_memo_size f in
     if newdata = [] then (data, f')
     else
       (let data' = data @ newdata in
        case str_find data' eom_mark of
          None \<Rightarrow> get_memo_loop data' f'
        | Some eom \<Rightarrow> (rstrip (take eom data'), f')))"
  by pat_completeness auto
termination
proof (relation "measure (\<lambda>(data, f). length (contents f) - pos f)")
  show "wf (measure (\<lambda>(data, f). length (contents f) - pos f))"
    by simp
next
  fix data :: string and f :: pyfile and x newdata f' data'
  assume x: "x = file_read db3_memo_size f" and p: "(newdata, f') = x" and ne: "newdata \<noteq> []"
  from x p have nd: "newdata = take db3_memo_size (drop (pos f) (contents f))"
    and f': "f' = f\<lparr>pos := pos f + length newdata\<rparr>"
    by (simp_all add: file_read_def Let_def)
  from nd ne have "pos f < length (contents f)"
    by (cases "pos f < length (contents f)") simp_all
  moreover from nd have "length newdata \<le> length (contents f) - pos f"
    by simp
  moreover from ne have "0 < length newdata"
    by simp
  ultimately have "length (contents f) - (pos f + length newdata) < length (contents f) - pos f"
    by arith
  with f' show "((data', f'), (data, f)) \<in> measure (\<lambda>(data, f). length (contents f) - pos f)"
    by simp
qed

declare get_memo_loop.simps [simp del]

definition Db3_get_memo :: "Db3Memo \<Rightarrow> nat \<Rightarrow> string \<times> Db3Memo" where
  "Db3_get_memo yo block =
    (let (data, f) = get_memo_loop [] (file_seek (block * db3_memo_size) (mfd yo))
     in (data, yo\<lparr>mfd := f\<rparr>))"

definition db3_blocks :: "nat \<Rightarrow> nat" where
  "db3_blocks len =
    (let length' = len + db3_record_header_length;
         blocks = length' div db3_memo_size
     in if length' mod db3_memo_size \<noteq> 0 then blocks + 1 else blocks)"

definition Db3_put_memo :: "Db3Memo \<Rightarrow> string \<Rightarrow> error + (nat \<times> Db3Memo)" where
  "Db3_put_memo yo data0 =
    (let data = rstrip data0;
         blocks = db3_blocks (length data);
         thismemo = nextmemo yo;
         yo1 = yo\<lparr>nextmemo := thismemo + blocks\<rparr>
     in case packLongInt (int (nextmemo yo1)) False of
          Inl e \<Rightarrow> Inl e
        | Inr hdr \<Rightarrow>
           (let f1 = file_write hdr (file_seek 0 (mfd yo1));
                f2 = file_write data (file_seek (thismemo * db3_memo_size) f1);
                f3 = file_write eom_mark f2;
                (double_check, yo2) = Db3_get_memo (yo1\<lparr>mfd := f3\<rparr>) thismemo
            in if length double_check \<noteq> length data
               then Inl (DbfError ''unknown error: memo not saved'')
               else Inr (thismemo, yo2)))"

subsection \<open>Visual FoxPro memo file (class \<open>_VfpMemo\<close>)\<close>

text \<open>\<open>meta.memo_size\<close> and the memo file; \<open>record_header_length\<close> is 8.\<close>

record VfpMemo =
  memo_size :: nat
  vfp_mfd :: pyfile

definition vfp_record_header_length :: nat where
  "vfp_record_header_length = 8"

text \<open>
  The number of blocks a payload of \<open>len\<close> bytes takes: \<open>length = len + record_header_length\<close>,
  \<open>blocks = length // memo_size\<close>, one more when \<open>length % memo_size\<close> is not zero.
\<close>

definition vfp_blocks :: "nat \<Rightarrow> nat \<Rightarrow> nat" where
  "vfp_blocks ms len =
     (if (len + vfp_record_header_length) mod ms \<noteq> 0
      then (len + vfp_record_header_length) div ms + 1 else (len + vfp_record_header_length) div ms)"

definition Vfp_get_memo :: "VfpMemo \<Rightarrow> nat \<Rightarrow> error + (string \<times> VfpMemo)" where
  "Vfp_get_memo yo block =
    (let (header, f1) = file_read 8 (file_seek (block * memo_size yo) (vfp_mfd yo)) in
     case unpackLongInt (drop 4 header) True of
       Inl e \<Rightarrow> Inl e
     | Inr len \<Rightarrow> (let (d, f2) = file_read len f1 in Inr (d, yo\<lparr>vfp_mfd := f2\<rparr>)))"

definition Vfp_put_memo :: "VfpMemo \<Rightarrow> string \<Rightarrow> error + (nat \<times> VfpMemo)" where
  "Vfp_put_memo yo data0 =
    (let data = rstrip data0;
         (hdr, f1) = file_read 4 (file_seek 0 (vfp_mfd yo))
     in case unpackLongInt hdr True of
          Inl e \<Rightarrow> Inl e
        | Inr thismemo \<Rightarrow>
           (let f2 = file_seek 0 f1 in
            if memo_size yo = 0 then Inl ZeroDivisionError
            else
                 (let blocks = vfp_blocks (memo_size yo) (length data)
                  in case packLongInt (int (thismemo + blocks)) True of
                       Inl e \<Rightarrow> Inl e
                     | Inr nxt \<Rightarrow>
                        (let f3 = file_seek (thismemo * memo_size yo) (file_write nxt f2) in
                         case packLongInt (int (length data)) True of
                           Inl e \<Rightarrow> Inl e
                         | Inr len \<Rightarrow>
                            Inr (thismemo,
                                 yo\<lparr>vfp_mfd :=
                                      file_write ([CHR 0x00, CHR 0x00, CHR 0x00, CHR 0x01] @ len @ data) f3\<rparr>)))))"


text \<open>
  The memo file that \<open>_Db3Memo._init\<close> creates for a new table
  (\<open>packLongInt(1) + '\x00' * 508\<close>), with \<open>nextmemo = 1\<close>; and the one that
  \<open>_VfpMemo._init\<close> creates for a block size of 64 (next free block 8).
\<close>

definition new_db3_memo :: Db3Memo where
  "new_db3_memo =
    \<lparr>nextmemo = 1,
     mfd = \<lparr>contents = [CHR 0x01, CHR 0x00, CHR 0x00, CHR 0x00] @ replicate 508 (CHR 0x00), pos = 512\<rparr>\<rparr>"

definition new_vfp_memo :: VfpMemo where
  "new_vfp_memo =
    \<lparr>memo_size = 64,
     vfp_mfd = \<lparr>contents = [CHR 0x00, CHR 0x00, CHR 0x00, CHR 0x08, CHR 0x00, CHR 0x00, CHR 0x00, CHR 0x40]
                             @ replicate 504 (CHR 0x00), pos = 512\<rparr>\<rparr>"


section \<open>Writing the table file: record writes, synchronisation, append and zap\<close>

text \<open>
  A method that raises leaves the table in the state reached so far, so the error case
  carries the table too.
\<close>

type_synonym 'a outcome = "(error \<times> DbfTable) + ('a \<times> DbfTable)"

text \<open>
  The property \<open>header.data\<close>: \<open>yo._data[1:4] = array('c', packDate(Date.today()))\<close>,
  then the whole buffer.
\<close>

definition TableHeader_data :: "string \<Rightarrow> string \<Rightarrow> string" where
  "TableHeader_data today h = take 1 h @ today @ drop 4 h"

text \<open>
  The property \<open>header.field_count\<close>: the field block is searched in steps of 32 bytes
  for the CR that ends it.
\<close>

fun scan_cr :: "string \<Rightarrow> nat list \<Rightarrow> error + nat" where
  "scan_cr fieldblock [] = Inl (DbfError ''corrupt field structure'')"
| "scan_cr fieldblock (i # rest) =
    (if i * 32 < length fieldblock then
       (if fieldblock ! (i * 32) = CHR 0x0D then Inr (i * 32) else scan_cr fieldblock rest)
     else Inl (IndexError ''array index out of range''))"

definition field_count :: "string \<Rightarrow> error + nat" where
  "field_count h =
    (let fieldblock = drop 32 h in
     case scan_cr fieldblock [0..<length fieldblock div 32 + 1] of
       Inl e \<Rightarrow> Inl e
     | Inr cr \<Rightarrow> Inr (length (take cr fieldblock) div 32))"

text \<open>
  \<open>_DbfRecord._update_disk()\<close> with its default arguments: the bytes of the record are
  written at \<open>_recnum * record_length + start\<close>.
\<close>

definition DbfRecord_update_disk :: "DbfRecord \<Rightarrow> DbfTable \<Rightarrow> DbfRecord outcome" where
  "DbfRecord_update_disk yo tbl =
    (if \<not> meta_inmemory tbl then
       (if recnum yo < 0 then
          Inl (DbfError ''Attempted to update record that has been packed'', tbl)
        else
          (let location = nat (recnum yo) * record_length (meta_header tbl) + start (meta_header tbl)
           in Inr (yo\<lparr>dirty := False\<rparr>,
                   tbl\<lparr>meta_dfd := file_write (rdata yo) (file_seek location (meta_dfd tbl))\<rparr>)))
     else Inr (yo, tbl))"

text \<open>\<open>write_record()\<close> without keyword arguments, \<open>delete_record()\<close>.\<close>

definition write_record :: "DbfRecord \<Rightarrow> DbfTable \<Rightarrow> DbfRecord outcome" where
  "write_record yo tbl = (if dirty yo then DbfRecord_update_disk yo tbl else Inr (yo, tbl))"

definition delete_record :: "DbfRecord \<Rightarrow> error + DbfRecord" where
  "delete_record yo =
    (if rdata yo = [] then Inl (IndexError ''array assignment index out of range'')
     else Inr (yo\<lparr>rdata := (rdata yo)[0 := CHR ''*''], dirty := True\<rparr>))"

text \<open>
  The loop \<open>for record in yo._table: record._update_disk()\<close>; the records already written
  are collected in \<open>written\<close>.
\<close>

fun update_records :: "DbfRecord list \<Rightarrow> DbfRecord list \<Rightarrow> DbfTable \<Rightarrow> (error \<times> DbfTable) + DbfTable" where
  "update_records written [] tbl = Inr (tbl\<lparr>table_list := written\<rparr>)"
| "update_records written (r # rs) tbl =
    (case DbfRecord_update_disk r tbl of
       Inl (e, tbl') \<Rightarrow> Inl (e, tbl'\<lparr>table_list := written @ r # rs\<rparr>)
     | Inr (r', tbl') \<Rightarrow> update_records (written @ [r']) rs tbl')"

text \<open>The size the file is cut to: \<open>header.start + header.record_count * header.record_length\<close>.\<close>

definition data_end :: "string \<Rightarrow> nat" where
  "data_end h = start h + record_count h * record_length h"

text \<open>\<open>'db3' in yo._versionabbv\<close>\<close>

definition is_db3 :: "DbfTable \<Rightarrow> bool" where
  "is_db3 tbl = (str_find (versionabbv tbl) ''db3'' \<noteq> None)"

text \<open>\<open>DbfTable._update_disk(headeronly)\<close>\<close>

definition DbfTable_update_disk :: "bool \<Rightarrow> DbfTable \<Rightarrow> (error \<times> DbfTable) + DbfTable" where
  "DbfTable_update_disk headeronly yo =
    (if meta_inmemory yo then Inr yo
     else
       (let h = TableHeader_data (meta_today yo) (meta_header yo);
            yo1 = yo\<lparr>meta_header := h, meta_dfd := file_write h (file_seek 0 (meta_dfd yo))\<rparr>;
            records_done =
              (if \<not> headeronly then
                 (case update_records [] (table_list yo1) yo1 of
                    Inl e \<Rightarrow> Inl e
                  | Inr yo2 \<Rightarrow>
                     Inr (yo2\<lparr>meta_dfd := file_truncate (data_end (meta_header yo2)) (meta_dfd yo2)\<rparr>))
               else Inr yo1)
        in case records_done of
             Inl e \<Rightarrow> Inl e
           | Inr yo3 \<Rightarrow>
              (if is_db3 yo3 then
                 Inr (yo3\<lparr>meta_dfd :=
                          file_truncate (data_end (meta_header yo3) + 1)
                            (file_write [CHR 0x1A] (file_seek_end (meta_dfd yo3)))\<rparr>)
               else Inr yo3)))"

text \<open>
  \<open>_DbfRecord.__new__(cls, recnum, layout, kamikaze)\<close> as \<open>append\<close> calls it: \<open>kamikaze\<close>
  is the byte string the record starts from (empty when a dict or a tuple is appended,
  the bytes of the record when a record is appended); it is filled up from the blank
  record or cut to \<open>record_length\<close>, and a record of a disk table is written at once.
\<close>

definition DbfRecord_new :: "int \<Rightarrow> DbfTable \<Rightarrow> string \<Rightarrow> DbfRecord outcome" where
  "DbfRecord_new rnum layout kamikaze =
    (let datalen = length kamikaze;
         reclen = record_length (meta_header layout);
         d = (if datalen < reclen then kamikaze @ drop datalen (meta_blankrecord layout)
              else if datalen > reclen then take reclen kamikaze
              else kamikaze);
         record = \<lparr>recnum = rnum, rdata = d, dirty = False\<rparr>
     in if \<not> meta_inmemory layout then DbfRecord_update_disk record layout
        else Inr (record, layout))"

text \<open>
  \<open>DbfTable.append(kamikaze, drop, multiple=1)\<close>.  The statements of the \<open>try\<close> block that
  fill the fields of the new record (\<open>gather_fields\<close> for a dict, item assignment for a
  tuple, the memo fields of a record) are the parameter \<open>populate\<close>: it either raises or
  gives the record with its new bytes.  When anything in the \<open>try\<close> block raises, the
  handler pops the record, takes one off \<open>record_count\<close>, calls \<open>_update_disk()\<close> and
  raises the exception again.
\<close>

definition append ::
  "DbfTable \<Rightarrow> string \<Rightarrow> (DbfRecord \<Rightarrow> error + DbfRecord) \<Rightarrow> DbfRecord outcome" where
  "append yo kamikaze populate =
    (case field_count (meta_header yo) of
       Inl e \<Rightarrow> Inl (e, yo)
     | Inr fc \<Rightarrow>
        if fc = 0 then Inl (DbfError ''No fields defined, cannot append'', yo)
        else
          (let empty_table = (record_count (meta_header yo) = 0) in
           case DbfRecord_new (int (record_count (meta_header yo))) yo kamikaze of
             Inl e \<Rightarrow> Inl e
           | Inr (newrecord, yo1) \<Rightarrow>
              (let yo2 = yo1\<lparr>table_list := table_list yo1 @ [newrecord]\<rparr> in
               case set_record_count (meta_header yo2) (int (record_count (meta_header yo2)) + 1) of
                 Inl e \<Rightarrow> Inl (e, yo2)
               | Inr h \<Rightarrow>
                  (let yo3 = yo2\<lparr>meta_header := h\<rparr>;
                       tried = (case populate newrecord of
                                  Inl e \<Rightarrow> Inl (e, yo3)
                                | Inr r \<Rightarrow> write_record r yo3)
                   in case tried of
                        Inl (e, yo4) \<Rightarrow>
                         (let yo5 = yo4\<lparr>table_list := butlast (table_list yo4)\<rparr> in
                          case set_record_count (meta_header yo5)
                                 (int (record_count (meta_header yo5)) - 1) of
                            Inl e' \<Rightarrow> Inl (e', yo5)
                          | Inr h' \<Rightarrow>
                             (case DbfTable_update_disk False (yo5\<lparr>meta_header := h'\<rparr>) of
                                Inl e' \<Rightarrow> Inl e'
                              | Inr yo6 \<Rightarrow> Inl (e, yo6)))
                      | Inr (r, yo4) \<Rightarrow>
                         (case DbfTable_update_disk True
                                 (yo4\<lparr>table_list := butlast (table_list yo4) @ [r]\<rparr>) of
                            Inl e \<Rightarrow> Inl e
                          | Inr yo5 \<Rightarrow>
                             Inr (r, if empty_table then yo5\<lparr>meta_current := 0\<rparr> else yo5))))))"

text \<open>\<open>DbfTable.zap(areyousure)\<close>\<close>

definition zap :: "DbfTable \<Rightarrow> bool \<Rightarrow> (error \<times> DbfTable) + DbfTable" where
  "zap yo areyousure =
    (if areyousure then
       (let yo1 = yo\<lparr>table_list := []\<rparr> in
        case set_record_count (meta_header yo1) 0 of
          Inl e \<Rightarrow> Inl (e, yo1)
        | Inr h \<Rightarrow> DbfTable_update_disk False (yo1\<lparr>meta_header := h\<rparr>))
     else Inl (DbfError ''You must say you are sure to wipe the table'', yo))"


text \<open>
  The table that \<open>Db3Table('t.dbf', 'name C(5)')\<close> creates: a header of 65 bytes (32 header
  bytes with version 3, no records, start 65, record length 6, codepage byte 3; one field
  descriptor; a CR), written to the file and followed by the byte 0x1A.
\<close>

definition new_db3_header :: string where
  "new_db3_header =
     [CHR 0x03, CHR 0x6F, CHR 0x03, CHR 0x0A, CHR 0x00, CHR 0x00, CHR 0x00, CHR 0x00,
      CHR 0x41, CHR 0x00, CHR 0x06, CHR 0x00] @ replicate 17 (CHR 0x00) @ [CHR 0x03, CHR 0x00, CHR 0x00]
     @ ''NAME'' @ replicate 7 (CHR 0x00) @ [CHR ''C'', CHR 0x01, CHR 0x00, CHR 0x00, CHR 0x00, CHR 0x05]
     @ replicate 15 (CHR 0x00) @ [CHR 0x0D]"

definition new_db3_table :: DbfTable where
  "new_db3_table =
    \<lparr>meta_header = new_db3_header,
     meta_dfd = \<lparr>contents = new_db3_header @ [CHR 0x1A], pos = 66\<rparr>,
     meta_blankrecord = ''      '',
     meta_today = [CHR 0x6F, CHR 0x03, CHR 0x0A],
     table_list = [],
     meta_inmemory = False,
     meta_current = - 1,
     versionabbv = ''db3''\<rparr>"

text \<open>
  A record is appended with the name \<open>Ethan\<close> and kept by the caller; the table is
  zapped; the kept record is marked as deleted and written.
\<close>

definition write_after_zap :: "(error \<times> DbfTable) + DbfTable" where
  "write_after_zap =
    (case append new_db3_table [] (\<lambda>r. Inr (r\<lparr>rdata := '' Ethan'', dirty := True\<rparr>)) of
       Inl e \<Rightarrow> Inl e
     | Inr (record, tbl1) \<Rightarrow>
        (case zap tbl1 True of
           Inl e \<Rightarrow> Inl e
         | Inr tbl2 \<Rightarrow>
            (case delete_record record of
               Inl e \<Rightarrow> Inl (e, tbl2)
             | Inr record' \<Rightarrow>
                (case write_record record' tbl2 of
                   Inl e \<Rightarrow> Inl e
                 | Inr (_, tbl3) \<Rightarrow> Inr tbl3))))"




section \<open>Theorems\<close>

subsection \<open>Logical: AND and OR\<close>

text \<open>
  C1 (as stated, refuted): the claim says that AND returns F whenever at least one operand
  is F, in particular that F AND ? = F.  In the code \<open>K\<close> tests for an unknown operand
  before anything else, so F AND ? is ?.
\<close>

theorem C1_false_and_unknown_counterexample:
  "K Logical_false (OLogical Logical_unknown) = Returns Logical_unknown
   \<and> K Logical_false (OLogical Logical_unknown) \<noteq> Returns Logical_false"
  by (simp add: K_def Logical_nonzero_def Logical_new_def)

text \<open>
  C1 (amended): AND returns ? whenever at least one operand is ?; when both operands are
  T or F, AND returns F if at least one operand is F and T otherwise, and OR returns T if
  at least one operand is T and F otherwise.
\<close>

theorem C1_and_or_amended:
  "K x (OLogical y) =
     Returns (if x = Logical_unknown \<or> y = Logical_unknown then Logical_unknown
              else if x = Logical_false \<or> y = Logical_false then Logical_false
              else Logical_true)
   \<and> A Logical_true (OLogical Logical_true) = Returns Logical_true
   \<and> A Logical_true (OLogical Logical_false) = Returns Logical_true
   \<and> A Logical_false (OLogical Logical_true) = Returns Logical_true
   \<and> A Logical_false (OLogical Logical_false) = Returns Logical_false"
  by (cases x; cases y) (simp_all add: K_def A_def Logical_nonzero_def Logical_new_def)

subsection \<open>Ordering and equality of empty temporal values\<close>

text \<open>
  C4: for Date, DateTime and Time alike, with \<open>None\<close> the empty value and \<open>Some d\<close> a
  non-empty one: empty < d and empty <= d are True, empty >= d and empty > d are False;
  for two empty values ==, <= and >= are True, < and > are False; a non-empty value is
  equal exactly to the non-empty values with the same components, and the empty value is
  equal exactly to the empty value.  (The receiver's method answers with a bool, so the
  reflected method of the right operand is never consulted.)
\<close>

theorem C4_empty_temporal_ordering:
  "Date_lt None (DateObj (Some d)) = Ret True
   \<and> Date_le None (DateObj (Some d)) = Ret True
   \<and> Date_ge None (DateObj (Some d)) = Ret False
   \<and> Date_gt None (DateObj (Some d)) = Ret False
   \<and> Date_eq None (DateObj None) = Ret True
   \<and> Date_le None (DateObj None) = Ret True
   \<and> Date_ge None (DateObj None) = Ret True
   \<and> Date_lt None (DateObj None) = Ret False
   \<and> Date_gt None (DateObj None) = Ret False
   \<and> Date_eq (Some d) (DateObj e) = Ret (e = Some d)
   \<and> Date_eq None (DateObj e) = Ret (e = None)
   \<and> DateTime_lt None (DateTimeObj (Some dt)) = Ret True
   \<and> DateTime_le None (DateTimeObj (Some dt)) = Ret True
   \<and> DateTime_ge None (DateTimeObj (Some dt)) = Ret False
   \<and> DateTime_gt None (DateTimeObj (Some dt)) = Ret False
   \<and> DateTime_eq None (DateTimeObj None) = Ret True
   \<and> DateTime_le None (DateTimeObj None) = Ret True
   \<and> DateTime_ge None (DateTimeObj None) = Ret True
   \<and> DateTime_lt None (DateTimeObj None) = Ret False
   \<and> DateTime_gt None (DateTimeObj None) = Ret False
   \<and> DateTime_eq (Some dt) (DateTimeObj et) = Ret (et = Some dt)
   \<and> DateTime_eq None (DateTimeObj et) = Ret (et = None)
   \<and> Time_lt None (TimeObj (Some t)) = Ret True
   \<and> Time_le None (TimeObj (Some t)) = Ret True
   \<and> Time_ge None (TimeObj (Some t)) = Ret False
   \<and> Time_gt None (TimeObj (Some t)) = Ret False
   \<and> Time_eq None (TimeObj None) = Ret True
   \<and> Time_le None (TimeObj None) = Ret True
   \<and> Time_ge None (TimeObj None) = Ret True
   \<and> Time_lt None (TimeObj None) = Ret False
   \<and> Time_gt None (TimeObj None) = Ret False
   \<and> Time_eq (Some t) (TimeObj f) = Ret (f = Some t)
   \<and> Time_eq None (TimeObj f) = Ret (f = None)"
  by (cases e; cases et; cases f)
     (simp_all add: Date_nonzero_def DateTime_nonzero_def Time_nonzero_def eq_commute)

subsection \<open>Size checks of the codec primitives\<close>

text \<open>
  C7 (as stated, refuted): the claim says that \<open>packStr\<close> raises DataOverflow for every
  name longer than 10 bytes.  For the 11-byte name \<open>abcdefghijk\<close> it raises the base
  class DbfError.
\<close>

theorem C7_packStr_counterexample:
  "packStr ''abcdefghijk'' =
     Inl (DbfError ''Maximum string size is ten characters -- abcdefghijk has 11 characters'')"
  by (simp add: packStr_def str_of_nat.simps digit_char_def)

text \<open>
  C7 (amended): \<open>packStr\<close> raises DbfError, with a message naming the string and its
  length, for every name longer than 10 bytes, and returns the upper-cased name padded
  with NUL bytes to 11 bytes otherwise; \<open>packShortInt\<close> does not return for any value
  above 65535 and \<open>packLongInt\<close> does not return for any value above 4294967295 (an
  exception is raised instead).
\<close>

theorem C7_size_checks_amended:
  "(length s > 10 \<longrightarrow>
      packStr s = Inl (DbfError (''Maximum string size is ten characters -- '' @ s @ '' has ''
                                 @ str_of_nat (length s) @ '' characters'')))
   \<and> (length s \<le> 10 \<longrightarrow> packStr s = Inr (upper s @ replicate (11 - length s) (CHR 0x00)))
   \<and> (v > 65535 \<longrightarrow> isl (packShortInt v b))
   \<and> (w > 4294967295 \<longrightarrow> isl (packLongInt w b))"
  by (simp add: packStr_def packShortInt_def packLongInt_def struct_pack_11s_def upper_def)

theorem C7_size_checks_amended_witness:
  "length ''abcdefghijk'' > 10
   \<and> packStr ''abcdefghijk'' =
       Inl (DbfError ''Maximum string size is ten characters -- abcdefghijk has 11 characters'')
   \<and> length ''name'' \<le> 10
   \<and> packStr ''name'' = Inr (''NAME'' @ replicate 7 (CHR 0x00))
   \<and> (65536::int) > 65535 \<and> isl (packShortInt 65536 False)
   \<and> (4294967296::int) > 4294967295 \<and> isl (packLongInt 4294967296 True)"
  using C7_size_checks_amended [where s = "''abcdefghijk''" and v = 65536 and b = False and w = 4294967296]
        C7_size_checks_amended [where s = "''name''" and v = 65536 and b = True and w = 4294967296]
  by (simp add: str_of_nat.simps digit_char_def upper_def upper_char_def char_of_eq_iff take_bit_eq_mod)

subsection \<open>Range of an integer field\<close>

text \<open>
  C9: \<open>updateInteger\<close> returns the 4-byte little-endian encoding of an integer \<open>v\<close>
  exactly when -2147483648 < v < 2147483647 and raises DataOverflow for every other
  integer; in particular both endpoints -2147483648 and 2147483647 raise DataOverflow
  although \<open>struct.pack('<i', _)\<close> encodes each of them; a value that \<open>int()\<close> cannot
  convert raises DbfError.
\<close>

theorem C9_updateInteger_range:
  "updateInteger (PyInt v) =
     (if - 2147483648 < v \<and> v < 2147483647 then Inr (le_bytes 4 v)
      else Inl (DataOverflow (''Integer size exceeded.  Possible: -2,147,483,648..+2,147,483,647.  Attempted: ''
                              @ str_of_int v)))
   \<and> updateInteger (PyInt (- 2147483648)) =
       Inl (DataOverflow ''Integer size exceeded.  Possible: -2,147,483,648..+2,147,483,647.  Attempted: -2147483648'')
   \<and> updateInteger (PyInt 2147483647) =
       Inl (DataOverflow ''Integer size exceeded.  Possible: -2,147,483,648..+2,147,483,647.  Attempted: 2147483647'')
   \<and> struct_pack_i (- 2147483648) = Inr [CHR 0x00, CHR 0x00, CHR 0x00, CHR 0x80]
   \<and> struct_pack_i 2147483647 = Inr [CHR 0xFF, CHR 0xFF, CHR 0xFF, CHR 0x7F]
   \<and> (py_int x = None \<longrightarrow>
        updateInteger x =
          Inl (DbfError (''incompatible type: '' @ type_text x @ ''('' @ value_text x @ '')'')))"
proof -
  have a: "updateInteger (PyInt v) =
     (if - 2147483648 < v \<and> v < 2147483647 then Inr (le_bytes 4 v)
      else Inl (DataOverflow (''Integer size exceeded.  Possible: -2,147,483,648..+2,147,483,647.  Attempted: ''
                              @ str_of_int v)))"
    by (simp add: updateInteger_def struct_pack_i_def)
  have b: "updateInteger (PyInt (- 2147483648)) =
       Inl (DataOverflow ''Integer size exceeded.  Possible: -2,147,483,648..+2,147,483,647.  Attempted: -2147483648'')"
    by (simp add: updateInteger_def str_of_int_def str_of_nat.simps digit_char_def)
  have c: "updateInteger (PyInt 2147483647) =
       Inl (DataOverflow ''Integer size exceeded.  Possible: -2,147,483,648..+2,147,483,647.  Attempted: 2147483647'')"
    by (simp add: updateInteger_def str_of_int_def str_of_nat.simps digit_char_def)
  have d: "struct_pack_i (- 2147483648) = Inr [CHR 0x00, CHR 0x00, CHR 0x00, CHR 0x80]"
    by (simp add: struct_pack_i_def le_bytes_def upt_conv_Cons char_of_eq_iff take_bit_eq_mod)
  have e: "struct_pack_i 2147483647 = Inr [CHR 0xFF, CHR 0xFF, CHR 0xFF, CHR 0x7F]"
    by (simp add: struct_pack_i_def le_bytes_def upt_conv_Cons char_of_eq_iff take_bit_eq_mod)
  have f: "py_int x = None \<longrightarrow>
        updateInteger x =
          Inl (DbfError (''incompatible type: '' @ type_text x @ ''('' @ value_text x @ '')''))"
    by (simp add: updateInteger_def)
  from a b c d e f show ?thesis by blast
qed

theorem C9_updateInteger_range_witness:
  "py_int PyNone = None
   \<and> updateInteger PyNone = Inl (DbfError ''incompatible type: <type 'NoneType'>(None)'')
   \<and> updateInteger (PyInt 2147483646) = Inr [CHR 0xFE, CHR 0xFF, CHR 0xFF, CHR 0x7F]
   \<and> updateInteger (PyInt (- 2147483647)) = Inr [CHR 0x01, CHR 0x00, CHR 0x00, CHR 0x80]"
  using C9_updateInteger_range [of 2147483646 PyNone] C9_updateInteger_range [of "- 2147483647" PyNone]
  by (simp add: le_bytes_def upt_conv_Cons char_of_eq_iff take_bit_eq_mod)

subsection \<open>Index maintenance\<close>

text \<open>
  C6 (the code departs from the claim): the claim says that for every pair (recno, key) of
  \<open>_records\<close> the position \<open>bisect_left(_values, key)\<close> holds \<open>key\<close> in \<open>_values\<close> and
  \<open>recno\<close> in \<open>_rec_by_val\<close>, and that an update removes the entry of its own recno.
  \<open>__call__\<close> removes whatever entry stands at \<open>bisect_left(_values, old key)\<close>:
  \<^item> records 0 and 1 both have key \<open>a\<close>; writing record 1 with key \<open>b\<close> removes the entry
    of record 0, so record 0 stays in \<open>_records\<close> while \<open>_rec_by_val\<close> is \<open>[1, 1]\<close>;
  \<^item> when the key function answers DoNotIndex the entry is removed from both lists but
    \<open>_records\<close> keeps the pair (unlike \<open>_purge\<close>, which deletes it), and the next write of
    that record pops from an empty list.
\<close>

theorem C6_index_entry_lost:
  "Index_call active_key \<lparr>recnum = 1, rdata = '' b'', dirty = True\<rparr>
     (Index_init active_key
        [\<lparr>recnum = 0, rdata = '' a'', dirty = False\<rparr>, \<lparr>recnum = 1, rdata = '' a'', dirty = False\<rparr>])
   = Inr \<lparr>Index_values = [[97], [98]], Index_rec_by_val = [1, 1],
          Index_records = [(0, [97]), (1, [98])]\<rparr>
   \<and> Index_call active_key \<lparr>recnum = 0, rdata = ''*a'', dirty = True\<rparr>
       (Index_init active_key [\<lparr>recnum = 0, rdata = '' a'', dirty = False\<rparr>])
     = Inr \<lparr>Index_values = [], Index_rec_by_val = [], Index_records = [(0, [97])]\<rparr>
   \<and> Index_call active_key \<lparr>recnum = 0, rdata = '' b'', dirty = True\<rparr>
       \<lparr>Index_values = [], Index_rec_by_val = [], Index_records = [(0, [97])]\<rparr>
     = Inl (IndexError ''pop from empty list'')"
  by code_simp

subsection \<open>goto with criteria\<close>

text \<open>
  C8 (the code departs from the claim): the claim says that \<open>goto(criteria)\<close> returns the
  first record whose transformed field values equal the criteria values.  For every table
  and every sequence of criteria the call raises: Bof or Eof when the record pointer is
  outside the table, AttributeError otherwise.  On a table whose only record has the name
  \<open>Ethan\<close>, with the pointer on it, \<open>goto(((''Ethan'', ''name''),))\<close> raises AttributeError.
\<close>

theorem C8_goto_criteria_raises:
  "isl (goto yo (GotoCriteria tuples))
   \<and> goto \<lparr>meta_header = CHR 0x03 # replicate 3 (CHR 0x00) @ [CHR 0x01, CHR 0x00, CHR 0x00, CHR 0x00,
                                CHR 0x41, CHR 0x00, CHR 0x06, CHR 0x00] @ replicate 52 (CHR 0x00) @ [CHR 0x0D],
            meta_dfd = \<lparr>contents = [], pos = 0\<rparr>, meta_blankrecord = ''      '',
            meta_today = [CHR 0x6F, CHR 0x03, CHR 0x0A], table_list = [\<lparr>recnum = 0, rdata = '' Ethan'', dirty = False\<rparr>],
            meta_inmemory = True, meta_current = 0, versionabbv = ''db3''\<rparr>
          (GotoCriteria [(''Ethan'', ''name'', None)])
     = Inl (AttributeError ''Eof'')"
proof -
  have "isl (goto yo (GotoCriteria tuples))"
    by (simp add: goto_def Let_def split: sum.splits)
  moreover have "goto \<lparr>meta_header = CHR 0x03 # replicate 3 (CHR 0x00) @ [CHR 0x01, CHR 0x00, CHR 0x00, CHR 0x00,
                                CHR 0x41, CHR 0x00, CHR 0x06, CHR 0x00] @ replicate 52 (CHR 0x00) @ [CHR 0x0D],
            meta_dfd = \<lparr>contents = [], pos = 0\<rparr>, meta_blankrecord = ''      '',
            meta_today = [CHR 0x6F, CHR 0x03, CHR 0x0A], table_list = [\<lparr>recnum = 0, rdata = '' Ethan'', dirty = False\<rparr>],
            meta_inmemory = True, meta_current = 0, versionabbv = ''db3''\<rparr>
          (GotoCriteria [(''Ethan'', ''name'', None)])
     = Inl (AttributeError ''Eof'')"
    by (simp add: goto_def current_index_def record_count_def le_value_def Let_def)
  ultimately show ?thesis by blast
qed

subsection \<open>Facts about strings, files and the memo loop\<close>

lemma str_find_Some_bound:
  "str_find s p = Some e \<Longrightarrow> e + length p \<le> length s \<and> take (length p) (drop e s) = p"
proof (induction s arbitrary: e)
  case Nil
  then show ?case by (simp split: if_splits)
next
  case (Cons c s)
  show ?case
  proof (cases "take (length p) (c # s) = p")
    case True
    with Cons.prems have "e = 0" by simp
    moreover have "length p \<le> length (c # s)"
    proof -
      from True have "length (take (length p) (c # s)) = length p"
        by (simp only:)
      then show ?thesis
        by (simp add: min_def split: if_splits)
    qed
    ultimately show ?thesis using True by simp
  next
    case False
    with Cons.prems obtain e' where e': "str_find s p = Some e'" and e: "e = Suc e'"
      by auto
    from Cons.IH [OF e'] e show ?thesis by simp
  qed
qed

lemma str_find_take:
  "str_find (take m d) p = Some e \<Longrightarrow> str_find d p = Some e"
proof (induction d arbitrary: m e)
  case Nil
  then show ?case by simp
next
  case (Cons c d)
  show ?case
  proof (cases m)
    case 0
    with Cons.prems show ?thesis by (simp split: if_splits)
  next
    case (Suc m')
    from str_find_Some_bound [OF Cons.prems] have len: "length p \<le> m"
      by simp
    then have tk: "take (length p) (take m (c # d)) = take (length p) (c # d)"
      by (simp add: min_def)
    show ?thesis
    proof (cases "take (length p) (c # d) = p")
      case True
      with tk Cons.prems Suc show ?thesis by simp
    next
      case False
      with tk Suc have "take (length p) (c # take m' d) \<noteq> p" by simp
      with Cons.prems Suc obtain e' where e': "str_find (take m' d) p = Some e'" and e: "e = Suc e'"
        by auto
      from Cons.IH [OF e'] e False show ?thesis by simp
    qed
  qed
qed

lemma str_find_prefix:
  "take (length p) s = p \<Longrightarrow> str_find s p = Some 0"
  by (cases s) auto

lemma str_find_occurs:
  "\<exists>e. str_find (xs @ p @ ys) p = Some e \<and> e \<le> length xs"
proof (induction xs)
  case Nil
  show ?case by (simp add: str_find_prefix)
next
  case (Cons x xs)
  then obtain e where "str_find (xs @ p @ ys) p = Some e" "e \<le> length xs" by blast
  then show ?case by auto
qed

lemma str_find_clean:
  "str_find d eom_mark = None \<Longrightarrow> d = [] \<or> last d \<noteq> CHR 0x1A \<Longrightarrow>
   str_find (d @ eom_mark @ rest) eom_mark = Some (length d)"
proof (induction d)
  case Nil
  show ?case by (simp add: eom_mark_def)
next
  case (Cons c d)
  from Cons.prems(1) have nf: "take 2 (c # d) \<noteq> eom_mark" and rec: "str_find d eom_mark = None"
    by (auto simp: eom_mark_def split: if_splits)
  from Cons.prems(2) have l: "d = [] \<or> last d \<noteq> CHR 0x1A" and c: "d = [] \<longrightarrow> c \<noteq> CHR 0x1A"
    by (auto split: if_splits)
  have "take 2 (c # d @ eom_mark @ rest) \<noteq> eom_mark"
  proof (cases d)
    case Nil
    with c show ?thesis by (simp add: eom_mark_def)
  next
    case (Cons d1 d')
    with nf show ?thesis by (simp add: eom_mark_def)
  qed
  moreover from Cons.IH [OF rec l] have "str_find (d @ eom_mark @ rest) eom_mark = Some (length d)" .
  ultimately show ?case by (simp add: eom_mark_def)
qed


lemma get_memo_loop_found:
  assumes "str_find (drop st (contents f)) eom_mark = Some n"
    and "pos f = st + length acc"
    and "acc = take (length acc) (drop st (contents f))"
    and "str_find acc eom_mark = None"
  shows "get_memo_loop acc f = (rstrip (take n (drop st (contents f))), snd (get_memo_loop acc f))
         \<and> contents (snd (get_memo_loop acc f)) = contents f"
  using assms
proof (induction "length (contents f) - pos f" arbitrary: acc f rule: less_induct)
  case less
  define D where "D = drop st (contents f)"
  define newdata where "newdata = take db3_memo_size (drop (pos f) (contents f))"
  define f' where "f' = f\<lparr>pos := pos f + length newdata\<rparr>"
  have fr: "file_read db3_memo_size f = (newdata, f')"
    by (simp add: file_read_def Let_def newdata_def f'_def)
  have nd: "newdata = take db3_memo_size (drop (length acc) D)"
    using less.prems(2) by (simp add: newdata_def D_def add.commute)
  have accD: "acc = take (length acc) D"
    using less.prems(3) by (simp add: D_def)
  have D: "str_find D eom_mark = Some n"
    using less.prems(1) by (simp add: D_def)
  show ?case
  proof (cases "newdata = []")
    case True
    with nd have "drop (length acc) D = []"
      by (simp add: db3_memo_size_def)
    then have "length D \<le> length acc" by simp
    with accD have "acc = D" by simp
    with D less.prems(4) show ?thesis by simp
  next
    case False
    define acc' where "acc' = acc @ newdata"
    have acc'D: "acc' = take (length acc + db3_memo_size) D"
      unfolding acc'_def nd using accD by (metis take_add)
    have "take (length (take (length acc + db3_memo_size) D)) D = take (length acc + db3_memo_size) D"
      by (simp add: min_def)
    with acc'D have acc'len: "acc' = take (length acc') D"
      by simp
    have posf': "pos f' = st + length acc'"
      using less.prems(2) by (simp add: f'_def acc'_def)
    have cf': "contents f' = contents f"
      by (simp add: f'_def)
    have unf: "get_memo_loop acc f =
        (case str_find acc' eom_mark of
           None \<Rightarrow> get_memo_loop acc' f'
         | Some eom \<Rightarrow> (rstrip (take eom acc'), f'))"
      unfolding acc'_def using False fr by (subst get_memo_loop.simps) (simp add: Let_def)
    show ?thesis
    proof (cases "str_find acc' eom_mark")
      case None
      have lt: "length (contents f') - pos f' < length (contents f) - pos f"
      proof -
        from False have "0 < length newdata" by simp
        moreover from False have "pos f < length (contents f)"
          by (cases "pos f < length (contents f)") (simp_all add: newdata_def)
        moreover have "length newdata \<le> length (contents f) - pos f"
          by (simp add: newdata_def)
        ultimately have "length (contents f) - (pos f + length newdata) < length (contents f) - pos f"
          by arith
        then show ?thesis by (simp add: f'_def)
      qed
      have "get_memo_loop acc' f' = (rstrip (take n (drop st (contents f'))), snd (get_memo_loop acc' f'))
         \<and> contents (snd (get_memo_loop acc' f')) = contents f'"
        using less.hyps [OF lt _ posf' _ None] D acc'len by (simp add: cf' D_def)
      with None unf cf' show ?thesis by simp
    next
      case (Some e)
      from Some acc'D have "str_find D eom_mark = Some e"
        using str_find_take [of "length acc + db3_memo_size" D eom_mark e] by simp
      with D have e: "e = n" by simp
      from str_find_Some_bound [OF Some] have "n \<le> length acc'"
        using e by simp
      moreover have "take n (take (length acc') D) = take (min n (length acc')) D"
        by simp
      ultimately have "take n acc' = take n D"
        using acc'len by (simp add: min_def)
      with Some unf e cf' show ?thesis by (simp add: D_def)
    qed
  qed
qed


lemma rstrip_idem: "rstrip (rstrip s) = rstrip s"
proof -
  have "dropWhile isspace (dropWhile isspace (rev s)) = dropWhile isspace (rev s)"
    by (rule dropWhile_idem)
  then show ?thesis by (simp add: rstrip_def)
qed

lemma length_rstrip_le: "length (rstrip s) \<le> length s"
  by (simp add: rstrip_def length_dropWhile_le [of isspace "rev s", simplified])

lemma rstrip_no_trailing_space: "rstrip s = [] \<or> \<not> isspace (last (rstrip s))"
proof (cases "dropWhile isspace (rev s)")
  case Nil
  then show ?thesis by (simp add: rstrip_def)
next
  case (Cons c cs)
  then have "\<not> isspace c"
    by (metis hd_dropWhile list.sel(1) list.distinct(1))
  with Cons show ?thesis by (simp add: rstrip_def)
qed

lemma le_value_le_bytes_4:
  assumes "n < 4294967296"
  shows "le_value (le_bytes 4 (int n)) = n"
proof -
  define x1 where "x1 = n div 256"
  define x2 where "x2 = x1 div 256"
  define x3 where "x3 = x2 div 256"
  have d2: "n div 65536 = x2"
    unfolding x2_def x1_def by (simp add: div_mult2_eq [symmetric])
  have d3: "n div 16777216 = x3"
    unfolding x3_def x2_def x1_def by (simp add: div_mult2_eq [symmetric])
  from assms have "x3 < 256"
    unfolding d3 [symmetric] by simp
  then have f4: "x3 mod 256 = x3" by simp
  have f3: "x2 mod 256 + 256 * x3 = x2"
    unfolding x3_def by simp
  have f2: "x1 mod 256 + 256 * x2 = x1"
    unfolding x2_def by simp
  have f1: "n mod 256 + 256 * x1 = n"
    unfolding x1_def by simp
  have k: "\<And>k. int n div 256 ^ k = int (n div 256 ^ k)"
    by (simp add: zdiv_int)
  have "le_bytes 4 (int n) =
      [char_of n, char_of (n div 256), char_of (n div 65536), char_of (n div 16777216)]"
    unfolding le_bytes_def k by (simp add: upt_conv_Cons)
  then have "le_value (le_bytes 4 (int n)) =
      n mod 256 + 256 * (x1 mod 256 + 256 * (x2 mod 256 + 256 * (x3 mod 256)))"
    by (simp add: le_value_def d2 d3 x1_def [symmetric])
  also have "\<dots> = n"
    by (simp only: f4 f3 f2 f1)
  finally show ?thesis .
qed

lemma length_le_bytes: "length (le_bytes k v) = k"
  by (simp add: le_bytes_def)

lemma packLongInt_ok:
  "n < 4294967296 \<Longrightarrow> packLongInt (int n) b = Inr (if b then rev (le_bytes 4 (int n)) else le_bytes 4 (int n))"
  by (simp add: packLongInt_def struct_pack_L_def)

lemma unpack_pack_LongInt:
  assumes "n < 4294967296" and "packLongInt (int n) b = Inr bs"
  shows "unpackLongInt bs b = Inr n"
proof -
  from assms have bs: "bs = (if b then rev (le_bytes 4 (int n)) else le_bytes 4 (int n))"
    by (simp add: packLongInt_ok)
  then have "length bs = 4" by (simp add: length_le_bytes)
  with bs le_value_le_bytes_4 [OF assms(1)] show ?thesis
    by (simp add: unpackLongInt_def struct_unpack_L_def length_le_bytes)
qed

lemma file_write_shape:
  "\<exists>pre rest. contents (file_write d f) = pre @ d @ rest \<and> length pre = pos f"
  by (rule exI [of _ "take (pos f) (contents f @ replicate (pos f - length (contents f)) (CHR 0x00))"])
     (auto simp: file_write_def Let_def)

lemma pos_file_write: "pos (file_write d f) = pos f + length d"
  by (simp add: file_write_def Let_def)

lemma file_write_at_end_of_prefix:
  assumes "contents f = pre @ rest" and "pos f = length pre"
  shows "contents (file_write d f) = pre @ d @ drop (length d) rest"
  using assms by (simp add: file_write_def Let_def)

lemma file_write_keeps_prefix:
  assumes "k \<le> pos f"
  shows "take k (contents (file_write d f)) =
         take k (contents f @ replicate (pos f - length (contents f)) (CHR 0x00))"
  using assms by (simp add: file_write_def Let_def min_def)


lemma db3_written_file:
  fixes mf :: pyfile and hdr data :: string and tm :: nat
  defines "f3 \<equiv> file_write eom_mark
                   (file_write data (file_seek (tm * db3_memo_size) (file_write hdr (file_seek 0 mf))))"
  shows "\<exists>rest. drop (tm * db3_memo_size) (contents f3) = data @ eom_mark @ rest"
    and "length hdr = 4 \<Longrightarrow> 1 \<le> tm \<Longrightarrow> take 4 (contents f3) = hdr"
    and "pos f3 = tm * db3_memo_size + length data + 2"
proof -
  define f1 where "f1 = file_write hdr (file_seek 0 mf)"
  define f2 where "f2 = file_write data (file_seek (tm * db3_memo_size) f1)"
  have f3: "f3 = file_write eom_mark f2"
    by (simp add: f3_def f2_def f1_def)
  obtain pre rest where c2: "contents f2 = pre @ data @ rest" and pre: "length pre = tm * db3_memo_size"
    using file_write_shape [of data "file_seek (tm * db3_memo_size) f1"]
    by (auto simp: f2_def file_seek_def)
  have p2: "pos f2 = length (pre @ data)"
    by (simp add: f2_def pos_file_write file_seek_def pre)
  from c2 have "contents f2 = (pre @ data) @ rest" by simp
  from file_write_at_end_of_prefix [OF this p2, of eom_mark]
  have c3: "contents f3 = pre @ data @ eom_mark @ drop (length eom_mark) rest"
    by (simp add: f3)
  with pre show "\<exists>rest. drop (tm * db3_memo_size) (contents f3) = data @ eom_mark @ rest"
    by simp
  show "pos f3 = tm * db3_memo_size + length data + 2"
    by (simp add: f3 pos_file_write p2 pre eom_mark_def)
  show "take 4 (contents f3) = hdr" if h: "length hdr = 4" and tm: "1 \<le> tm"
  proof -
    have c1: "contents f1 = hdr @ drop 4 (contents mf)"
      by (simp add: f1_def file_write_def file_seek_def Let_def h)
    from tm have four: "4 \<le> tm * db3_memo_size"
      by (simp add: db3_memo_size_def)
    then have "4 \<le> pos f2"
      by (simp add: p2 pre)
    then have "take 4 (contents f3) = take 4 (contents f2 @ replicate (pos f2 - length (contents f2)) (CHR 0x00))"
      unfolding f3 by (rule file_write_keeps_prefix)
    also have "\<dots> = take 4 (contents f2)"
      by (simp add: c2 pre four)
    also have "\<dots> = take 4 (contents f1 @ replicate (tm * db3_memo_size - length (contents f1)) (CHR 0x00))"
      unfolding f2_def using four file_write_keeps_prefix [of 4 "file_seek (tm * db3_memo_size) f1" data]
      by (simp add: file_seek_def)
    also have "\<dots> = hdr"
      by (simp add: c1 h)
    finally show ?thesis .
  qed
qed


lemma Db3_get_memo_result:
  assumes "drop (b * db3_memo_size) (contents (mfd yo)) = data @ eom_mark @ rest"
  shows "\<exists>n. str_find (data @ eom_mark) eom_mark = Some n \<and> n \<le> length data
            \<and> fst (Db3_get_memo yo b) = rstrip (take n data)
            \<and> contents (mfd (snd (Db3_get_memo yo b))) = contents (mfd yo)
            \<and> nextmemo (snd (Db3_get_memo yo b)) = nextmemo yo"
proof -
  define f where "f = file_seek (b * db3_memo_size) (mfd yo)"
  define D where "D = drop (b * db3_memo_size) (contents f)"
  have D: "D = data @ eom_mark @ rest"
    using assms by (simp add: D_def f_def file_seek_def)
  from str_find_occurs [of data eom_mark "[]"]
  obtain n where n: "str_find (data @ eom_mark) eom_mark = Some n" and nle: "n \<le> length data"
    by auto
  have "take (length data + length eom_mark) D = data @ eom_mark"
    by (simp add: D)
  with n have "str_find (take (length data + length eom_mark) D) eom_mark = Some n"
    by simp
  then have fD: "str_find (drop (b * db3_memo_size) (contents f)) eom_mark = Some n"
    unfolding D_def [symmetric] by (rule str_find_take)
  have "get_memo_loop [] f = (rstrip (take n (drop (b * db3_memo_size) (contents f))), snd (get_memo_loop [] f))
         \<and> contents (snd (get_memo_loop [] f)) = contents f"
    by (rule get_memo_loop_found [OF fD]) (simp_all add: f_def file_seek_def eom_mark_def)
  then have loop: "fst (get_memo_loop [] f) = rstrip (take n D)"
    and cont: "contents (snd (get_memo_loop [] f)) = contents f"
    unfolding D_def by (metis fst_conv, blast)
  from nle have "take n D = take n data"
    by (simp add: D)
  moreover have "contents f = contents (mfd yo)"
    by (simp add: f_def file_seek_def)
  ultimately show ?thesis
    using loop cont n nle by (auto simp: Db3_get_memo_def f_def [symmetric] split_beta)
qed


lemma Db3_put_memo_char:
  assumes lim: "nextmemo yo + db3_blocks (length (rstrip s)) < 4294967296"
  shows "if str_find (rstrip s @ eom_mark) eom_mark = Some (length (rstrip s))
         then \<exists>yo'. Db3_put_memo yo s = Inr (nextmemo yo, yo')
               \<and> nextmemo yo' = nextmemo yo + db3_blocks (length (rstrip s))
               \<and> (1 \<le> nextmemo yo \<longrightarrow>
                    unpackLongInt (take 4 (contents (mfd yo'))) False = Inr (nextmemo yo'))
               \<and> take (length (rstrip s) + 2)
                    (drop (nextmemo yo * db3_memo_size) (contents (mfd yo'))) = rstrip s @ eom_mark
               \<and> fst (Db3_get_memo yo' (nextmemo yo)) = rstrip s
         else Db3_put_memo yo s = Inl (DbfError ''unknown error: memo not saved'')"
proof -
  define data where "data = rstrip s"
  define tm where "tm = nextmemo yo"
  define nxt where "nxt = tm + db3_blocks (length data)"
  define hdr where "hdr = le_bytes 4 (int nxt)"
  define f3 where "f3 = file_write eom_mark
                   (file_write data (file_seek (tm * db3_memo_size) (file_write hdr (file_seek 0 (mfd yo)))))"
  define yo3 where "yo3 = yo\<lparr>nextmemo := nxt, mfd := f3\<rparr>"
  define dc where "dc = fst (Db3_get_memo yo3 tm)"
  define yo2 where "yo2 = snd (Db3_get_memo yo3 tm)"
  from lim have nxt: "nxt < 4294967296"
    by (simp add: nxt_def tm_def data_def)
  then have pk: "packLongInt (int nxt) False = Inr hdr"
    by (simp add: packLongInt_ok hdr_def)
  have put: "Db3_put_memo yo s =
      (if length dc \<noteq> length data then Inl (DbfError ''unknown error: memo not saved'')
       else Inr (tm, yo2))"
    using pk unfolding dc_def yo2_def yo3_def f3_def nxt_def tm_def data_def
    by (simp add: Db3_put_memo_def Let_def split_beta del: of_nat_add)
  obtain rest where dr: "drop (tm * db3_memo_size) (contents f3) = data @ eom_mark @ rest"
    using db3_written_file(1) [where tm = tm and mf = "mfd yo" and hdr = hdr and data = data]
    unfolding f3_def by blast
  then have dr3: "drop (tm * db3_memo_size) (contents (mfd yo3)) = data @ eom_mark @ rest"
    by (simp add: yo3_def)
  from Db3_get_memo_result [OF dr3]
  obtain n where n: "str_find (data @ eom_mark) eom_mark = Some n" and nle: "n \<le> length data"
    and dcn: "dc = rstrip (take n data)"
    and c2: "contents (mfd yo2) = contents f3" and n2: "nextmemo yo2 = nxt"
    by (auto simp: dc_def yo2_def yo3_def)
  show ?thesis
  proof (cases "n = length data")
    case True
    then have dc: "dc = data"
      by (simp add: dcn data_def rstrip_idem)
    with put have p: "Db3_put_memo yo s = Inr (tm, yo2)" by simp
    have hd: "unpackLongInt (take 4 (contents (mfd yo2))) False = Inr nxt" if "1 \<le> tm"
    proof -
      have "take 4 (contents f3) = hdr"
        unfolding f3_def using that by (intro db3_written_file(2)) (simp_all add: hdr_def length_le_bytes)
      with unpack_pack_LongInt [OF nxt pk] show ?thesis by (simp add: c2)
    qed
    from dr c2 have dr2: "drop (tm * db3_memo_size) (contents (mfd yo2)) = data @ eom_mark @ rest"
      by simp
    then have tk: "take (length data + 2) (drop (tm * db3_memo_size) (contents (mfd yo2))) = data @ eom_mark"
      by (simp add: eom_mark_def)
    from Db3_get_memo_result [OF dr2] n True
    have "fst (Db3_get_memo yo2 tm) = data"
      by (auto simp: data_def rstrip_idem)
    with p hd tk n2 n True show ?thesis
      by (auto simp: data_def [symmetric] tm_def [symmetric] nxt_def)
  next
    case False
    with nle have "n < length data" by simp
    moreover have "length dc \<le> n"
      unfolding dcn using length_rstrip_le [of "take n data"] by simp
    ultimately have "length dc \<noteq> length data" by simp
    with put n False show ?thesis
      by (simp add: data_def [symmetric])
  qed
qed

lemma Vfp_put_get:
  assumes len4: "4 \<le> length (contents (vfp_mfd v))"
    and ms: "0 < memo_size v"
    and tm: "tm = le_value (rev (take 4 (contents (vfp_mfd v))))"
    and lim: "tm + vfp_blocks (memo_size v) (length (rstrip s)) < 4294967296"
    and dl: "length (rstrip s) < 4294967296"
  shows "\<exists>v'. Vfp_put_memo v s = Inr (tm, v')
           \<and> (\<exists>v''. Vfp_get_memo v' tm = Inr (rstrip s, v''))"
proof -
  define data where "data = rstrip s"
  define c where "c = contents (vfp_mfd v)"
  define nxt where "nxt = rev (le_bytes 4 (int (tm + vfp_blocks (memo_size v) (length data))))"
  define len where "len = rev (le_bytes 4 (int (length data)))"
  define rec where "rec = [CHR 0x00, CHR 0x00, CHR 0x00, CHR 0x01] @ len @ data"
  define f1 where "f1 = snd (file_read 4 (file_seek 0 (vfp_mfd v)))"
  define fW where "fW = file_write rec (file_seek (tm * memo_size v) (file_write nxt (file_seek 0 f1)))"
  have rd: "file_read 4 (file_seek 0 (vfp_mfd v)) = (take 4 c, f1)"
    by (simp add: file_read_def file_seek_def Let_def c_def f1_def)
  from len4 have up: "unpackLongInt (take 4 c) True = Inr tm"
    by (simp add: unpackLongInt_def struct_unpack_L_def c_def tm)
  from lim have pk1: "packLongInt (int (tm + vfp_blocks (memo_size v) (length data))) True = Inr nxt"
    by (simp add: packLongInt_ok nxt_def data_def del: of_nat_add)
  from dl have pk2: "packLongInt (int (length data)) True = Inr len"
    by (simp add: packLongInt_ok len_def data_def)
  have put: "Vfp_put_memo v s = Inr (tm, v\<lparr>vfp_mfd := fW\<rparr>)"
    using ms rd up pk1 pk2 unfolding fW_def rec_def
    by (simp add: Vfp_put_memo_def Let_def data_def [symmetric] c_def [symmetric] del: of_nat_add)
  obtain pre rest where cW: "contents fW = pre @ rec @ rest" and pre: "length pre = tm * memo_size v"
    using file_write_shape [of rec "file_seek (tm * memo_size v) (file_write nxt (file_seek 0 f1))"]
    by (auto simp: fW_def file_seek_def)
  have l4: "length len = 4"
    by (simp add: len_def length_le_bytes)
  define g1 where "g1 = snd (file_read 8 (file_seek (tm * memo_size v) fW))"
  have r8: "file_read 8 (file_seek (tm * memo_size v) fW) =
      ([CHR 0x00, CHR 0x00, CHR 0x00, CHR 0x01] @ len, g1)"
    using l4 by (simp add: file_read_def file_seek_def Let_def cW pre rec_def g1_def)
  have pg: "pos g1 = tm * memo_size v + 8" and cg: "contents g1 = contents fW"
    using l4 by (simp_all add: g1_def file_read_def file_seek_def Let_def cW pre rec_def)
  from dl have ul: "unpackLongInt len True = Inr (length data)"
    using unpack_pack_LongInt [OF _ pk2] by (simp add: data_def)
  have rdat: "fst (file_read (length data) g1) = data"
    using l4 by (simp add: file_read_def Let_def pg cg cW pre rec_def)
  have "\<exists>v''. Vfp_get_memo (v\<lparr>vfp_mfd := fW\<rparr>) tm = Inr (data, v'')"
    using r8 ul rdat by (auto simp: Vfp_get_memo_def Let_def split_beta)
  with put show ?thesis
    by (auto simp: data_def)
qed



lemma db3_blocks_ceil: "db3_blocks len = (len + 2 + 511) div 512"
proof -
  define q where "q = (len + 2) div 512"
  define r where "r = (len + 2) mod 512"
  have d: "len + 2 = 512 * q + r" and r: "r < 512"
    by (simp_all add: q_def r_def)
  have e: "len + 2 + 511 = r + 511 + q * 512"
    using d by simp
  show ?thesis
  proof (cases "r = 0")
    case True
    then have "(len + 2 + 511) div 512 = q"
      unfolding e by simp
    with True show ?thesis
      by (simp add: db3_blocks_def db3_record_header_length_def db3_memo_size_def Let_def q_def r_def)
  next
    case False
    with r have "(r + 511) div 512 = 1"
      by simp
    then have "(len + 2 + 511) div 512 = q + 1"
      unfolding e by simp
    with False show ?thesis
      by (simp add: db3_blocks_def db3_record_header_length_def db3_memo_size_def Let_def q_def r_def)
  qed
qed



subsection \<open>dBase III memo: put and get\<close>




subsection \<open>Memo round trip\<close>

text \<open>
  C10 (as stated, refuted): the claim says that on the dBase III store every payload
  without an embedded 0x1A 0x1A pair is written and read back as \<open>s.rstrip()\<close>.  The
  payload \<open>a\x1a\<close> holds no such pair, and writing it to a new memo file raises DbfError:
  its last byte and the end mark form a pair one byte early, so the length check of
  \<open>_put_memo\<close> fails.
\<close>

theorem C10_db3_trailing_ctrl_z_counterexample:
  "Db3_put_memo new_db3_memo [CHR ''a'', CHR 0x1A] = Inl (DbfError ''unknown error: memo not saved'')"
proof -
  have r: "rstrip [CHR ''a'', CHR 0x1A] = [CHR ''a'', CHR 0x1A]"
    by (simp add: rstrip_def isspace_def)
  have b: "db3_blocks 2 = 1"
    by (simp add: db3_blocks_ceil)
  have n: "nextmemo new_db3_memo = 1"
    by (simp add: new_db3_memo_def)
  have f: "str_find ([CHR ''a'', CHR 0x1A] @ eom_mark) eom_mark \<noteq> Some (length [CHR ''a'', CHR 0x1A])"
    by (simp add: eom_mark_def)
  have hyp: "nextmemo new_db3_memo + db3_blocks (length (rstrip [CHR ''a'', CHR 0x1A])) < 4294967296"
    unfolding r n by (simp add: db3_blocks_ceil)
  from Db3_put_memo_char [OF hyp] f show ?thesis
    unfolding r by (simp only: if_False)
qed

text \<open>
  C10 (amended): for every payload \<open>s\<close> whose stripped form neither contains a
  0x1A 0x1A pair nor ends in 0x1A, the dBase III store writes \<open>s\<close> and a following get of
  the returned block gives \<open>s.rstrip()\<close>; for every payload \<open>s\<close> the Visual FoxPro store
  (with a readable header, a positive block size, block numbers and length below 2^32)
  writes \<open>s\<close> and a following get gives \<open>s.rstrip()\<close>; and \<open>s.rstrip()\<close> never ends in
  whitespace.
\<close>

theorem C10_memo_round_trip_amended:
  "(nextmemo yo + db3_blocks (length (rstrip s)) < 4294967296
      \<and> str_find (rstrip s) eom_mark = None
      \<and> (rstrip s = [] \<or> last (rstrip s) \<noteq> CHR 0x1A)
      \<longrightarrow> (\<exists>yo'. Db3_put_memo yo s = Inr (nextmemo yo, yo')
               \<and> fst (Db3_get_memo yo' (nextmemo yo)) = rstrip s))
   \<and> (4 \<le> length (contents (vfp_mfd v)) \<and> 0 < memo_size v
      \<and> le_value (rev (take 4 (contents (vfp_mfd v)))) + vfp_blocks (memo_size v) (length (rstrip s))
          < 4294967296
      \<and> length (rstrip s) < 4294967296
      \<longrightarrow> (\<exists>v'. Vfp_put_memo v s = Inr (le_value (rev (take 4 (contents (vfp_mfd v)))), v')
               \<and> (\<exists>v''. Vfp_get_memo v' (le_value (rev (take 4 (contents (vfp_mfd v)))))
                          = Inr (rstrip s, v''))))
   \<and> (rstrip s = [] \<or> \<not> isspace (last (rstrip s)))"
proof (intro conjI impI)
  assume a: "nextmemo yo + db3_blocks (length (rstrip s)) < 4294967296
      \<and> str_find (rstrip s) eom_mark = None
      \<and> (rstrip s = [] \<or> last (rstrip s) \<noteq> CHR 0x1A)"
  then have "str_find (rstrip s @ eom_mark) eom_mark = Some (length (rstrip s))"
    using str_find_clean [of "rstrip s" "[]"] by simp
  with Db3_put_memo_char [of yo s] a
  show "\<exists>yo'. Db3_put_memo yo s = Inr (nextmemo yo, yo')
               \<and> fst (Db3_get_memo yo' (nextmemo yo)) = rstrip s"
    by auto
next
  assume "4 \<le> length (contents (vfp_mfd v)) \<and> 0 < memo_size v
      \<and> le_value (rev (take 4 (contents (vfp_mfd v)))) + vfp_blocks (memo_size v) (length (rstrip s))
          < 4294967296
      \<and> length (rstrip s) < 4294967296"
  then show "\<exists>v'. Vfp_put_memo v s = Inr (le_value (rev (take 4 (contents (vfp_mfd v)))), v')
               \<and> (\<exists>v''. Vfp_get_memo v' (le_value (rev (take 4 (contents (vfp_mfd v)))))
                          = Inr (rstrip s, v''))"
    using Vfp_put_get [of v "le_value (rev (take 4 (contents (vfp_mfd v))))" s] by simp
next
  show "rstrip s = [] \<or> \<not> isspace (last (rstrip s))"
    by (rule rstrip_no_trailing_space)
qed

theorem C10_memo_round_trip_amended_witness:
  "nextmemo new_db3_memo + db3_blocks (length (rstrip ''timeless  '')) < 4294967296
   \<and> str_find (rstrip ''timeless  '') eom_mark = None
   \<and> last (rstrip ''timeless  '') \<noteq> CHR 0x1A
   \<and> (\<exists>yo'. Db3_put_memo new_db3_memo ''timeless  '' = Inr (1, yo')
          \<and> fst (Db3_get_memo yo' 1) = ''timeless'')
   \<and> 4 \<le> length (contents (vfp_mfd new_vfp_memo)) \<and> 0 < memo_size new_vfp_memo
   \<and> le_value (rev (take 4 (contents (vfp_mfd new_vfp_memo)))) = 8
   \<and> (\<exists>v'. Vfp_put_memo new_vfp_memo ''timeless  '' = Inr (8, v')
          \<and> (\<exists>v''. Vfp_get_memo v' 8 = Inr (''timeless'', v'')))"
proof -
  define s where "s = ''timeless  ''"
  have r: "rstrip s = ''timeless''"
    by (simp add: s_def rstrip_def isspace_def)
  have n: "nextmemo new_db3_memo = 1"
    by (simp add: new_db3_memo_def)
  have f: "str_find ''timeless'' eom_mark = None"
    by (simp add: eom_mark_def)
  have h: "le_value (rev (take 4 (contents (vfp_mfd new_vfp_memo)))) = 8"
    by (simp add: new_vfp_memo_def le_value_def)
  have ms: "memo_size new_vfp_memo = 64"
    by (simp add: new_vfp_memo_def)
  have a1: "nextmemo new_db3_memo + db3_blocks (length (rstrip s)) < 4294967296
      \<and> str_find (rstrip s) eom_mark = None
      \<and> (rstrip s = [] \<or> last (rstrip s) \<noteq> CHR 0x1A)"
    unfolding r n f by (simp add: db3_blocks_ceil)
  have a2: "4 \<le> length (contents (vfp_mfd new_vfp_memo)) \<and> 0 < memo_size new_vfp_memo
      \<and> le_value (rev (take 4 (contents (vfp_mfd new_vfp_memo)))) + vfp_blocks (memo_size new_vfp_memo) (length (rstrip s))
          < 4294967296
      \<and> length (rstrip s) < 4294967296"
    unfolding r h ms by (simp add: new_vfp_memo_def vfp_blocks_def vfp_record_header_length_def)
  from C10_memo_round_trip_amended [of new_db3_memo s new_vfp_memo] a1 a2
  have "\<exists>yo'. Db3_put_memo new_db3_memo s = Inr (nextmemo new_db3_memo, yo')
               \<and> fst (Db3_get_memo yo' (nextmemo new_db3_memo)) = rstrip s"
    and "\<exists>v'. Vfp_put_memo new_vfp_memo s = Inr (le_value (rev (take 4 (contents (vfp_mfd new_vfp_memo)))), v')
               \<and> (\<exists>v''. Vfp_get_memo v' (le_value (rev (take 4 (contents (vfp_mfd new_vfp_memo)))))
                          = Inr (rstrip s, v''))"
    by blast+
  then have "\<exists>yo'. Db3_put_memo new_db3_memo s = Inr (1, yo') \<and> fst (Db3_get_memo yo' 1) = ''timeless''"
    and "\<exists>v'. Vfp_put_memo new_vfp_memo s = Inr (8, v') \<and> (\<exists>v''. Vfp_get_memo v' 8 = Inr (''timeless'', v''))"
    unfolding r n h by blast+
  moreover from a1 have "nextmemo new_db3_memo + db3_blocks (length (rstrip s)) < 4294967296"
    and "str_find (rstrip s) eom_mark = None" by blast+
  moreover have "last (rstrip s) \<noteq> CHR 0x1A"
    unfolding r by simp
  moreover from a2 have "4 \<le> length (contents (vfp_mfd new_vfp_memo))" "0 < memo_size new_vfp_memo"
    by blast+
  ultimately show ?thesis
    using h unfolding s_def [symmetric] by blast
qed

subsection \<open>Facts about the table file\<close>

lemma length_file_write:
  "length (contents (file_write d f)) = max (length (contents f)) (pos f + length d)"
  by (simp add: file_write_def Let_def)

lemma length_file_truncate: "length (contents (file_truncate n f)) = n"
  by (simp add: file_truncate_def)

lemma length_mark_db3:
  "length (contents (file_truncate (n + 1) (file_write [CHR 0x1A] (file_seek_end f)))) = n + 1"
  by (rule length_file_truncate)

lemma set_record_count_ok:
  assumes "0 \<le> n" and "n < 4294967296"
  shows "set_record_count h n = Inr (take 4 h @ le_bytes 4 n @ drop 8 h)"
  using assms by (simp add: set_record_count_def packLongInt_def struct_pack_L_def)

lemma header_fields_set_count:
  assumes "8 \<le> length h" and "length bs = 4"
  shows "record_count (take 4 h @ bs @ drop 8 h) = le_value bs"
    and "start (take 4 h @ bs @ drop 8 h) = start h"
    and "record_length (take 4 h @ bs @ drop 8 h) = record_length h"
    and "length (take 4 h @ bs @ drop 8 h) = length h"
    and "field_count (take 4 h @ bs @ drop 8 h) = field_count h"
  using assms by (simp_all add: record_count_def start_def record_length_def field_count_def min_def)

lemma header_fields_data:
  assumes "4 \<le> length h" and "length today = 3"
  shows "record_count (TableHeader_data today h) = record_count h"
    and "start (TableHeader_data today h) = start h"
    and "record_length (TableHeader_data today h) = record_length h"
    and "length (TableHeader_data today h) = length h"
    and "data_end (TableHeader_data today h) = data_end h"
  using assms
  by (simp_all add: record_count_def start_def record_length_def data_end_def TableHeader_data_def min_def)


lemma field_count_data:
  assumes "4 \<le> length h" and "length today = 3"
  shows "field_count (TableHeader_data today h) = field_count h"
  using assms by (simp add: field_count_def TableHeader_data_def min_def)

lemma update_records_ok:
  assumes "\<not> meta_inmemory tbl" and "\<forall>r \<in> set rs. 0 \<le> recnum r"
  shows "\<exists>f. update_records written rs tbl =
           Inr (tbl\<lparr>meta_dfd := f, table_list := written @ map (\<lambda>r. r\<lparr>dirty := False\<rparr>) rs\<rparr>)"
  using assms
proof (induction rs arbitrary: written tbl)
  case Nil
  have "tbl\<lparr>table_list := written\<rparr> = tbl\<lparr>meta_dfd := meta_dfd tbl, table_list := written\<rparr>"
    by simp
  then show ?case by (auto intro: exI [of _ "meta_dfd tbl"])
next
  case (Cons r rs)
  define tbl' where
    "tbl' = tbl\<lparr>meta_dfd := file_write (rdata r)
             (file_seek (nat (recnum r) * record_length (meta_header tbl) + start (meta_header tbl))
                (meta_dfd tbl))\<rparr>"
  from Cons.prems have step: "DbfRecord_update_disk r tbl = Inr (r\<lparr>dirty := False\<rparr>, tbl')"
    by (simp add: DbfRecord_update_disk_def Let_def tbl'_def)
  from Cons.prems have "\<not> meta_inmemory tbl'" and "\<forall>r \<in> set rs. 0 \<le> recnum r"
    by (simp_all add: tbl'_def)
  from Cons.IH [OF this, of "written @ [r\<lparr>dirty := False\<rparr>]"]
  obtain f where "update_records (written @ [r\<lparr>dirty := False\<rparr>]) rs tbl' =
      Inr (tbl'\<lparr>meta_dfd := f, table_list := (written @ [r\<lparr>dirty := False\<rparr>]) @ map (\<lambda>r. r\<lparr>dirty := False\<rparr>) rs\<rparr>)"
    by blast
  with step show ?case
    by (auto simp: tbl'_def intro: exI [of _ f])
qed

lemma DbfTable_update_disk_full:
  assumes "\<not> meta_inmemory yo" and "\<forall>r \<in> set (table_list yo). 0 \<le> recnum r"
    and "4 \<le> length (meta_header yo)" and "length (meta_today yo) = 3"
  shows "\<exists>f. DbfTable_update_disk False yo =
           Inr (yo\<lparr>meta_header := TableHeader_data (meta_today yo) (meta_header yo),
                   meta_dfd := f,
                   table_list := map (\<lambda>r. r\<lparr>dirty := False\<rparr>) (table_list yo)\<rparr>)
           \<and> length (contents f) = data_end (meta_header yo) + (if is_db3 yo then 1 else 0)"
proof -
  define h where "h = TableHeader_data (meta_today yo) (meta_header yo)"
  define yo1 where "yo1 = yo\<lparr>meta_header := h, meta_dfd := file_write h (file_seek 0 (meta_dfd yo))\<rparr>"
  from assms have "\<not> meta_inmemory yo1" and "\<forall>r \<in> set (table_list yo1). 0 \<le> recnum r"
    by (simp_all add: yo1_def)
  from update_records_ok [OF this, of "[]"]
  obtain f where ur: "update_records [] (table_list yo1) yo1 =
      Inr (yo1\<lparr>meta_dfd := f, table_list := map (\<lambda>r. r\<lparr>dirty := False\<rparr>) (table_list yo1)\<rparr>)"
    by auto
  have de: "data_end h = data_end (meta_header yo)"
    unfolding h_def using assms(3,4) by (rule header_fields_data)
  define g where "g = (if is_db3 yo
      then file_truncate (data_end h + 1) (file_write [CHR 0x1A] (file_seek_end (file_truncate (data_end h) f)))
      else file_truncate (data_end h) f)"
  have lg: "length (contents g) = data_end (meta_header yo) + (if is_db3 yo then 1 else 0)"
    by (simp add: g_def length_file_truncate de)
  have "DbfTable_update_disk False yo =
      Inr (yo\<lparr>meta_header := h, meta_dfd := g,
              table_list := map (\<lambda>r. r\<lparr>dirty := False\<rparr>) (table_list yo)\<rparr>)"
    using assms(1) ur
    by (simp add: DbfTable_update_disk_def Let_def h_def [symmetric] yo1_def [symmetric] g_def is_db3_def)
       (simp add: yo1_def)
  with lg show ?thesis
    unfolding h_def by blast
qed

lemma set_record_count_fields:
  assumes "8 \<le> length h" and "n < 4294967296"
  shows "\<exists>h'. set_record_count h (int n) = Inr h' \<and> record_count h' = n \<and> start h' = start h
            \<and> record_length h' = record_length h \<and> length h' = length h
            \<and> field_count h' = field_count h"
proof -
  have "set_record_count h (int n) = Inr (take 4 h @ le_bytes 4 (int n) @ drop 8 h)"
    using assms(2) by (intro set_record_count_ok) simp_all
  moreover have "length (le_bytes 4 (int n)) = 4"
    by (rule length_le_bytes)
  ultimately show ?thesis
    using header_fields_set_count [OF assms(1), of "le_bytes 4 (int n)"] le_value_le_bytes_4 [OF assms(2)]
    by simp
qed

subsection \<open>Facts about append\<close>

text \<open>The header fields of the new dBase III table, and the blank record that \<open>append\<close> starts from.\<close>

lemma h_len: "length new_db3_header = 65"
  by (simp add: new_db3_header_def)

lemma h_count: "record_count new_db3_header = 0"
  by (simp add: new_db3_header_def record_count_def le_value_def)

lemma h_start: "start new_db3_header = 65"
  by (simp add: new_db3_header_def start_def le_value_def)

lemma h_reclen: "record_length new_db3_header = 6"
  by (simp add: new_db3_header_def record_length_def le_value_def)

lemma h_fields: "field_count new_db3_header = Inr 1"
  by (simp add: new_db3_header_def field_count_def Let_def upt_rec_numeral nth_append)

lemma new_record_blank:
  "DbfRecord_new (int (record_count (meta_header new_db3_table))) new_db3_table [] =
     Inr (\<lparr>recnum = 0, rdata = ''      '', dirty = False\<rparr>,
          new_db3_table\<lparr>meta_dfd := file_write ''      '' (file_seek 65 (meta_dfd new_db3_table))\<rparr>)"
  by (simp add: DbfRecord_new_def DbfRecord_update_disk_def Let_def new_db3_table_def
      h_count h_start h_reclen)



lemma DbfTable_update_disk_headeronly:
  assumes "\<not> meta_inmemory yo" and "4 \<le> length (meta_header yo)" and "length (meta_today yo) = 3"
  shows "\<exists>f. DbfTable_update_disk True yo =
           Inr (yo\<lparr>meta_header := TableHeader_data (meta_today yo) (meta_header yo), meta_dfd := f\<rparr>)
           \<and> (if is_db3 yo then length (contents f) = data_end (meta_header yo) + 1
               else length (contents f) =
                      max (length (contents (meta_dfd yo))) (length (meta_header yo)))"
proof -
  define h where "h = TableHeader_data (meta_today yo) (meta_header yo)"
  define f1 where "f1 = file_write h (file_seek 0 (meta_dfd yo))"
  define g where "g = (if is_db3 yo
      then file_truncate (data_end h + 1) (file_write [CHR 0x1A] (file_seek_end f1)) else f1)"
  have de: "data_end h = data_end (meta_header yo)" and lh: "length h = length (meta_header yo)"
    unfolding h_def using assms(2,3) by (rule header_fields_data)+
  have l1: "length (contents f1) = max (length (contents (meta_dfd yo))) (length (meta_header yo))"
    by (simp add: f1_def length_file_write file_seek_def lh)
  have "DbfTable_update_disk True yo = Inr (yo\<lparr>meta_header := h, meta_dfd := g\<rparr>)"
    using assms(1)
    by (simp add: DbfTable_update_disk_def Let_def h_def [symmetric] f1_def [symmetric] g_def is_db3_def)
  moreover have "if is_db3 yo then length (contents g) = data_end (meta_header yo) + 1
               else length (contents g) =
                      max (length (contents (meta_dfd yo))) (length (meta_header yo))"
    by (simp add: g_def length_file_truncate de l1)
  ultimately show ?thesis
    unfolding h_def by blast
qed

lemma append_ok:
  assumes fc: "field_count (meta_header yo) = Inr fc" "0 < fc"
    and new: "DbfRecord_new (int (record_count (meta_header yo))) yo kamikaze = Inr (newrecord, yo1)"
    and pop: "populate newrecord = Inr r" "0 \<le> recnum r"
    and disk: "\<not> meta_inmemory yo"
    and hdr: "8 \<le> length (meta_header yo)" "length (meta_today yo) = 3"
    and lim: "record_count (meta_header yo) + 1 < 4294967296"
  shows "\<exists>hd f. append yo kamikaze populate =
            Inr (r\<lparr>dirty := False\<rparr>,
                 yo\<lparr>meta_header := hd, meta_dfd := f,
                    table_list := table_list yo @ [r\<lparr>dirty := False\<rparr>],
                    meta_current := (if record_count (meta_header yo) = 0 then 0 else meta_current yo)\<rparr>)
          \<and> record_count hd = record_count (meta_header yo) + 1
          \<and> start hd = start (meta_header yo)
          \<and> record_length hd = record_length (meta_header yo)
          \<and> length hd = length (meta_header yo)
          \<and> field_count hd = field_count (meta_header yo)
          \<and> (is_db3 yo \<longrightarrow> length (contents f) = data_end hd + 1)"
proof -
  define h where "h = meta_header yo"
  define n where "n = record_count h"
  from new disk obtain f1 where yo1: "yo1 = yo\<lparr>meta_dfd := f1\<rparr>"
    by (auto simp: DbfRecord_new_def DbfRecord_update_disk_def Let_def split: if_splits)
  have lim1: "n + 1 < 4294967296"
    using lim by (simp add: n_def h_def)
  from set_record_count_fields [OF hdr(1) lim1]
  obtain h1 where h1': "set_record_count h (int (n + 1)) = Inr h1"
    and h1c: "record_count h1 = n + 1" and h1s: "start h1 = start h"
    and h1r: "record_length h1 = record_length h" and h1l: "length h1 = length h"
    and h1f: "field_count h1 = field_count h"
    unfolding h_def by blast
  have h1: "set_record_count h (int n + 1) = Inr h1"
    using h1' by (simp add: add.commute)
  define r' where "r' = r\<lparr>dirty := False\<rparr>"
  define f2 where "f2 = (if dirty r
      then file_write (rdata r) (file_seek (nat (recnum r) * record_length h1 + start h1) f1) else f1)"
  have wr: "write_record r (yo\<lparr>meta_dfd := f1, table_list := table_list yo @ [newrecord],
                                    meta_header := h1\<rparr>)
      = Inr (if dirty r then r' else r,
             yo\<lparr>meta_dfd := f2, table_list := table_list yo @ [newrecord], meta_header := h1\<rparr>)"
    using disk pop(2)
    by (simp add: write_record_def DbfRecord_update_disk_def Let_def r'_def f2_def)
  define yo4 where
    "yo4 = yo\<lparr>meta_dfd := f2, meta_header := h1, table_list := table_list yo @ [if dirty r then r' else r]\<rparr>"
  have "\<not> meta_inmemory yo4" "4 \<le> length (meta_header yo4)" "length (meta_today yo4) = 3"
    using disk hdr h1l by (simp_all add: yo4_def h_def)
  from DbfTable_update_disk_headeronly [OF this]
  obtain f where ud: "DbfTable_update_disk True yo4 =
           Inr (yo4\<lparr>meta_header := TableHeader_data (meta_today yo4) (meta_header yo4), meta_dfd := f\<rparr>)"
    and lf: "is_db3 yo4 \<longrightarrow> length (contents f) = data_end (meta_header yo4) + 1"
    by (auto split: if_splits)
  define hd where "hd = TableHeader_data (meta_today yo) h1"
  have hdf: "record_count hd = n + 1" "start hd = start h" "record_length hd = record_length h"
    "length hd = length h" "data_end hd = data_end h1"
    using header_fields_data [of h1 "meta_today yo"] hdr h1l h1c h1s h1r
    by (simp_all add: hd_def h_def)
  have hdfc: "field_count hd = field_count h"
    using field_count_data [of h1 "meta_today yo"] hdr h1l h1f
    by (simp add: hd_def h_def)
  have clean: "(if dirty r then r' else r) = r'"
    by (simp add: r'_def)
  have "append yo kamikaze populate =
      Inr (r', yo\<lparr>meta_header := hd, meta_dfd := f, table_list := table_list yo @ [r'],
                   meta_current := (if n = 0 then 0 else meta_current yo)\<rparr>)"
    using fc new pop(1) h1 wr ud
    by (simp add: append_def Let_def h_def [symmetric] n_def [symmetric] yo1 yo4_def hd_def clean)
  moreover have "is_db3 yo \<longrightarrow> length (contents f) = data_end hd + 1"
    using lf by (simp add: yo4_def is_db3_def hdf)
  ultimately show ?thesis
    using hdf hdfc unfolding r'_def n_def h_def by blast
qed

text \<open>The new dBase III table after the record with the name \<open>Ethan\<close> has been appended.\<close>

lemma append_ethan:
  "\<exists>hd f. append new_db3_table [] (\<lambda>r. Inr (r\<lparr>rdata := '' Ethan'', dirty := True\<rparr>)) =
        Inr (\<lparr>recnum = 0, rdata = '' Ethan'', dirty = False\<rparr>,
             new_db3_table\<lparr>meta_header := hd, meta_dfd := f,
                table_list := [\<lparr>recnum = 0, rdata = '' Ethan'', dirty = False\<rparr>],
                meta_current := 0\<rparr>)
      \<and> record_count hd = 1 \<and> start hd = 65 \<and> record_length hd = 6 \<and> length hd = 65
      \<and> field_count hd = Inr 1 \<and> length (contents f) = 72"
proof -
  define pop :: "DbfRecord \<Rightarrow> error + DbfRecord"
    where "pop = (\<lambda>r. Inr (r\<lparr>rdata := '' Ethan'', dirty := True\<rparr>))"
  have tbl: "meta_header new_db3_table = new_db3_header" "\<not> meta_inmemory new_db3_table"
    "meta_today new_db3_table = [CHR 0x6F, CHR 0x03, CHR 0x0A]" "table_list new_db3_table = []"
    "is_db3 new_db3_table"
    by (simp_all add: new_db3_table_def is_db3_def)
  have "\<exists>hd f. append new_db3_table [] pop =
            Inr (\<lparr>recnum = 0, rdata = '' Ethan'', dirty = True\<rparr>\<lparr>dirty := False\<rparr>,
                 new_db3_table\<lparr>meta_header := hd, meta_dfd := f,
                    table_list := table_list new_db3_table @ [\<lparr>recnum = 0, rdata = '' Ethan'', dirty = True\<rparr>\<lparr>dirty := False\<rparr>],
                    meta_current := (if record_count (meta_header new_db3_table) = 0 then 0
                                     else meta_current new_db3_table)\<rparr>)
          \<and> record_count hd = record_count (meta_header new_db3_table) + 1
          \<and> start hd = start (meta_header new_db3_table)
          \<and> record_length hd = record_length (meta_header new_db3_table)
          \<and> length hd = length (meta_header new_db3_table)
          \<and> field_count hd = field_count (meta_header new_db3_table)
          \<and> (is_db3 new_db3_table \<longrightarrow> length (contents f) = data_end hd + 1)"
    by (rule append_ok [where fc = 1, OF _ _ new_record_blank])
       (simp_all add: tbl pop_def h_fields h_len h_count)
  then obtain hd f where ap: "append new_db3_table [] pop =
        Inr (\<lparr>recnum = 0, rdata = '' Ethan'', dirty = False\<rparr>,
             new_db3_table\<lparr>meta_header := hd, meta_dfd := f,
                table_list := [\<lparr>recnum = 0, rdata = '' Ethan'', dirty = False\<rparr>], meta_current := 0\<rparr>)"
    and hd: "record_count hd = 1" "start hd = 65" "record_length hd = 6" "length hd = 65"
      "field_count hd = Inr 1"
    and lf: "length (contents f) = data_end hd + 1"
    by (auto simp: tbl h_count h_start h_reclen h_len h_fields)
  from lf hd have "length (contents f) = 72"
    by (simp add: data_end_def)
  with ap hd show ?thesis
    unfolding pop_def by blast
qed

text \<open>
  The table that \<open>write_after_zap\<close> leaves: no records, the header of a table without
  records, and a file of 71 bytes.
\<close>

lemma write_after_zap_state:
  "\<exists>t. write_after_zap = Inr t
      \<and> \<not> meta_inmemory t \<and> is_db3 t \<and> table_list t = [] \<and> length (meta_today t) = 3
      \<and> record_count (meta_header t) = 0 \<and> start (meta_header t) = 65
      \<and> record_length (meta_header t) = 6 \<and> length (meta_header t) = 65
      \<and> field_count (meta_header t) = Inr 1
      \<and> length (contents (meta_dfd t)) = 71"
proof -
  define rec where "rec = \<lparr>recnum = 0, rdata = '' Ethan'', dirty = False\<rparr>"
  have tbl: "meta_header new_db3_table = new_db3_header" "\<not> meta_inmemory new_db3_table"
    "meta_today new_db3_table = [CHR 0x6F, CHR 0x03, CHR 0x0A]" "table_list new_db3_table = []"
    "is_db3 new_db3_table"
    by (simp_all add: new_db3_table_def is_db3_def)
  from append_ethan obtain hd f
    where ap: "append new_db3_table [] (\<lambda>r. Inr (r\<lparr>rdata := '' Ethan'', dirty := True\<rparr>)) =
        Inr (rec, new_db3_table\<lparr>meta_header := hd, meta_dfd := f, table_list := [rec], meta_current := 0\<rparr>)"
    and hd: "record_count hd = 1" "start hd = 65" "record_length hd = 6" "length hd = 65"
      "field_count hd = Inr 1"
    unfolding rec_def by blast
  define tbl1 where
    "tbl1 = new_db3_table\<lparr>meta_header := hd, meta_dfd := f, table_list := [rec], meta_current := 0\<rparr>"
  from set_record_count_fields [of hd 0] hd
  obtain h0 where h0: "set_record_count hd 0 = Inr h0"
    and h0f: "record_count h0 = 0" "start h0 = 65" "record_length h0 = 6" "length h0 = 65"
      "field_count h0 = Inr 1"
    by auto
  define z where "z = tbl1\<lparr>table_list := [], meta_header := h0\<rparr>"
  have zf: "\<not> meta_inmemory z" "\<forall>r \<in> set (table_list z). 0 \<le> recnum r"
    "4 \<le> length (meta_header z)" "length (meta_today z) = 3"
    by (simp_all add: z_def tbl1_def tbl h0f)
  define h2 where "h2 = TableHeader_data (meta_today z) (meta_header z)"
  from DbfTable_update_disk_full [OF zf]
  obtain f2 where ud: "DbfTable_update_disk False z =
      Inr (z\<lparr>meta_header := h2, meta_dfd := f2, table_list := []\<rparr>)"
    and lf2: "length (contents f2) = data_end (meta_header z) + (if is_db3 z then 1 else 0)"
    unfolding h2_def by (auto simp: z_def)
  define tbl2 where "tbl2 = z\<lparr>meta_header := h2, meta_dfd := f2, table_list := []\<rparr>"
  have zap: "zap tbl1 True = Inr tbl2"
    using h0 ud by (simp add: zap_def Let_def tbl1_def z_def tbl2_def)
  have h2f: "record_count h2 = 0" "start h2 = 65" "record_length h2 = 6" "length h2 = 65"
    using header_fields_data [of "meta_header z" "meta_today z"] zf(3,4)
    by (simp_all add: h2_def z_def h0f)
  have h2fc: "field_count h2 = Inr 1"
    using field_count_data [of "meta_header z" "meta_today z"] zf(3,4)
    by (simp add: h2_def z_def h0f)
  have db: "is_db3 z" "is_db3 tbl2"
    using tbl(5) by (simp_all add: is_db3_def z_def tbl1_def tbl2_def)
  have l2: "length (contents f2) = 66"
    using lf2 db by (simp add: data_end_def z_def h0f)
  have del: "delete_record rec = Inr \<lparr>recnum = 0, rdata = ''*Ethan'', dirty = True\<rparr>"
    by (simp add: delete_record_def rec_def)
  define f3 where "f3 = file_write ''*Ethan'' (file_seek 65 f2)"
  have wr: "write_record \<lparr>recnum = 0, rdata = ''*Ethan'', dirty = True\<rparr> tbl2 =
      Inr (\<lparr>recnum = 0, rdata = ''*Ethan'', dirty = False\<rparr>, tbl2\<lparr>meta_dfd := f3\<rparr>)"
    using zf(1)
    by (simp add: write_record_def DbfRecord_update_disk_def Let_def tbl2_def h2f f3_def)
  have l3: "length (contents f3) = 71"
    by (simp add: f3_def length_file_write file_seek_def l2)
  have e: "write_after_zap = Inr (tbl2\<lparr>meta_dfd := f3\<rparr>)"
    unfolding write_after_zap_def
    by (simp add: ap tbl1_def [symmetric] zap del wr)
  have st: "meta_header (tbl2\<lparr>meta_dfd := f3\<rparr>) = h2" "meta_dfd (tbl2\<lparr>meta_dfd := f3\<rparr>) = f3"
    "\<not> meta_inmemory (tbl2\<lparr>meta_dfd := f3\<rparr>)" "table_list (tbl2\<lparr>meta_dfd := f3\<rparr>) = []"
    "length (meta_today (tbl2\<lparr>meta_dfd := f3\<rparr>)) = 3" "is_db3 (tbl2\<lparr>meta_dfd := f3\<rparr>)"
    using db(2) zf(1,4) by (simp_all add: tbl2_def is_db3_def)
  from e st h2f h2fc l3 show ?thesis
    by (intro exI [of _ "tbl2\<lparr>meta_dfd := f3\<rparr>"]) (simp only: simp_thms)
qed

subsection \<open>Append rolls back when the fields cannot be filled\<close>




subsection \<open>Size of the table file\<close>

text \<open>
  C5 (the code departs from the claim): the claim says that after any sequence of create,
  append, delete, pack, zap, field mutations and sync the size of the table file is
  \<open>start + record_count * record_length\<close>, plus one for dBase III.  Every full
  \<open>_update_disk()\<close> cuts the file to that size (\<open>DbfTable_update_disk_full\<close>), and a
  successful \<open>append\<close> leaves a dBase III file at that size (\<open>append_ok\<close>).  But \<open>zap\<close>
  empties the table without touching the records the caller still holds: on the new
  dBase III table a record is appended and kept, the table is zapped, and the kept record
  is marked as deleted and written.  The write lands at \<open>start\<close>, so the file has
  71 bytes while the header (start 65, no records, record length 6) stands for 66.
  \<open>pack\<close> sets \<open>_recnum\<close> of each record it removes to -1, and the write of such a record
  is refused with DbfError.
\<close>

theorem C5_write_after_zap:
  "map_sum fst
     (\<lambda>t. (length (contents (meta_dfd t)), start (meta_header t), record_count (meta_header t),
           record_length (meta_header t), is_db3 t))
     write_after_zap
   = Inr (71, 65, 0, 6, True)
   \<and> write_record \<lparr>recnum = - 1, rdata = ''*Ethan'', dirty = True\<rparr> new_db3_table
     = Inl (DbfError ''Attempted to update record that has been packed'', new_db3_table)"
proof -
  from write_after_zap_state obtain t where t: "write_after_zap = Inr t"
    and st: "is_db3 t" "record_count (meta_header t) = 0" "start (meta_header t) = 65"
      "record_length (meta_header t) = 6" "length (contents (meta_dfd t)) = 71"
    by blast
  have "map_sum fst
     (\<lambda>t. (length (contents (meta_dfd t)), start (meta_header t), record_count (meta_header t),
           record_length (meta_header t), is_db3 t))
     write_after_zap
   = Inr (71, 65, 0, 6, True)"
    unfolding t by (simp add: st)
  moreover have "\<not> meta_inmemory new_db3_table"
    by (simp add: new_db3_table_def)
  then have "write_record \<lparr>recnum = - 1, rdata = ''*Ethan'', dirty = True\<rparr> new_db3_table
     = Inl (DbfError ''Attempted to update record that has been packed'', new_db3_table)"
    by (simp add: write_record_def DbfRecord_update_disk_def)
  ultimately show ?thesis by blast
qed

end
